theory Spec2Isabelle
  imports Complex_Main "HOL-Library.Log_Nat"
begin

chapter \<open>The embedding\<close>

section \<open>Level-set domains\<close>

text \<open>
  The domain markers of the notebooks: \<open>NEG\<close>, \<open>POS\<close> and \<open>IF\<close> select the part of the
  geometry an integral runs over and, together with \<open>HASNEG\<close> and \<open>HASPOS\<close>, the element
  sets \<open>GetElementsOfType\<close> is asked for.
\<close>

datatype domain_type = NEG | POS | IF | HASNEG | HASPOS

section \<open>BitArrays\<close>

text \<open>
  Modelled from the spec: the type \<open>BitArray\<close> and its operations belong to the library
  the notebooks import. They are the boolean vectors of section 3 of the specification
  with the intersection and union of section 4.4: a \<open>BitArray\<close> is a fixed-size vector of
  bits, \<open>Clear\<close> resets every bit, \<open>a |= b\<close> and \<open>a &= b\<close> combine two arrays of the same
  size bit by bit, in place, and \<open>CompoundBitArray\<close> chains the arrays of the components
  of a product space.
\<close>

type_synonym BitArray = "bool list"

text \<open>Modelled from the spec: \<open>ba.Clear()\<close>.\<close>

definition Clear :: "BitArray \<Rightarrow> BitArray" where
  "Clear ba = map (\<lambda>b. False) ba"

text \<open>Modelled from the spec: \<open>a |= b\<close>, the union.\<close>

definition ba_or :: "BitArray \<Rightarrow> BitArray \<Rightarrow> BitArray" where
  "ba_or a b = map2 (\<or>) a b"

text \<open>Modelled from the spec: \<open>a &= b\<close>, the intersection.\<close>

definition ba_and :: "BitArray \<Rightarrow> BitArray \<Rightarrow> BitArray" where
  "ba_and a b = map2 (\<and>) a b"

text \<open>Modelled from the spec: \<open>CompoundBitArray([a, b])\<close>, the mask of a product space.\<close>

definition CompoundBitArray :: "BitArray list \<Rightarrow> BitArray" where
  "CompoundBitArray bas = concat bas"

text \<open>The set of indices whose bit is set.\<close>

definition ba_set :: "BitArray \<Rightarrow> nat set" where
  "ba_set ba = set (filter (\<lambda>i. ba ! i) [0..<length ba])"

section \<open>Meshes and piecewise linear level sets\<close>

text \<open>
  What the notebooks read from a mesh: the vertices with their coordinates, the elements
  (each the list of its vertex numbers) and the facets (each the list of the numbers of
  its adjacent elements: two for an interior facet, one on the boundary). \<open>mesh.ne\<close> is
  the number of elements.
\<close>

record mesh =
  vertices :: "(real \<times> real) list"
  elements :: "nat list list"
  facets :: "nat list list"

definition ne :: "mesh \<Rightarrow> nat" where
  "ne m = length (elements m)"

text \<open>Every vertex number of an element is the number of a vertex of the mesh.\<close>

definition mesh_ok :: "mesh \<Rightarrow> bool" where
  "mesh_ok m = list_all (\<lambda>el. list_all (\<lambda>v. v < length (vertices m)) el) (elements m)"

text \<open>
  A small mesh for examples: the unit square cut into two triangles along a diagonal,
  with its five edges.
\<close>

definition two_triangles :: mesh where
  "two_triangles =
     \<lparr>vertices = [(0, 0), (1, 0), (0, 1), (1, 1)],
      elements = [[0, 1, 2], [1, 3, 2]],
      facets = [[0], [0], [0, 1], [1], [1]]\<rparr>"

text \<open>
  A coefficient function is a function of the point. A \<open>GridFunction\<close> on
  \<open>H1(mesh, order=1)\<close> is its vector of vertex values.
\<close>

type_synonym coefficient_function = "real \<times> real \<Rightarrow> real"

text \<open>
  Modelled from the spec: \<open>InterpolateToP1(f, gf)\<close> is a library function the notebooks
  call. By section 4.1 of the specification it produces the node-wise piecewise linear
  interpolant: the value of \<open>f\<close> at every vertex.
\<close>

definition InterpolateToP1 :: "coefficient_function \<Rightarrow> mesh \<Rightarrow> real list" where
  "InterpolateToP1 f m = map f (vertices m)"

section \<open>Element classification\<close>

text \<open>
  Modelled from the spec: the class \<open>CutInfo\<close> and its method \<open>GetElementsOfType\<close> belong
  to the library the notebooks import; the notebooks only call them. The model follows
  section 4.2 of the specification (the classification is a check of the sign vector of
  the nodal values, an exact zero counting as a configurable sign) and the comments of
  CutFEM.ipynb on the markers:
  \<^verbatim>\<open>
  #    * NEG= only negative level set values
  #    * POS= only positive level set values
  #    * IF= cut element (negative and positive) level set values
  \<close>
  and \<open>HASNEG\<close>, \<open>HASPOS\<close>: negative, respectively positive, somewhere on the element.
\<close>

datatype sign = Negative | Positive

text \<open>
  Modelled from the spec: the sign of a nodal value; the sign \<open>zero\<close> of an exact zero is
  the configurable convention.
\<close>

definition vertex_sign :: "sign \<Rightarrow> real \<Rightarrow> sign" where
  "vertex_sign zero v = (if v < 0 then Negative else if 0 < v then Positive else zero)"

text \<open>
  Modelled from the spec: whether an element with the given sign vector belongs to the
  set of a marker.
\<close>

fun element_of_type :: "domain_type \<Rightarrow> sign list \<Rightarrow> bool" where
  "element_of_type NEG sv = list_all (\<lambda>s. s = Negative) sv"
| "element_of_type POS sv = list_all (\<lambda>s. s = Positive) sv"
| "element_of_type IF sv = (list_ex (\<lambda>s. s = Negative) sv \<and> list_ex (\<lambda>s. s = Positive) sv)"
| "element_of_type HASNEG sv = list_ex (\<lambda>s. s = Negative) sv"
| "element_of_type HASPOS sv = list_ex (\<lambda>s. s = Positive) sv"

text \<open>
  Modelled from the spec: \<open>CutInfo(mesh, lset)\<close> for a piecewise linear level set, as the
  sign vector of every element (\<open>ci.Update(lset)\<close> computes the same from the new field).
\<close>

definition CutInfo :: "sign \<Rightarrow> mesh \<Rightarrow> real list \<Rightarrow> sign list list" where
  "CutInfo zero m lset = map (\<lambda>el. map (\<lambda>v. vertex_sign zero (lset ! v)) el) (elements m)"

text \<open>Modelled from the spec: \<open>ci.GetElementsOfType(marker)\<close>, one bit per element.\<close>

definition GetElementsOfType :: "sign list list \<Rightarrow> domain_type \<Rightarrow> BitArray" where
  "GetElementsOfType ci marker = map (element_of_type marker) ci"

section \<open>Degrees of freedom\<close>

text \<open>
  What the notebooks read from a finite element space: the number of degrees of freedom
  and, for every element, the numbers of its degrees of freedom.
\<close>

record fespace =
  ndof :: nat
  element_dofs :: "nat list list"

text \<open>
  Modelled from the spec: \<open>GetDofsOfElements(fes, elements)\<close> is a library function the
  notebooks call. By section 4.4 of the specification, a degree of freedom is active if
  and only if at least one element that contains it lies in the given element set.
\<close>

definition GetDofsOfElements :: "fespace \<Rightarrow> BitArray \<Rightarrow> BitArray" where
  "GetDofsOfElements fes els =
     map (\<lambda>d. list_ex (\<lambda>(dofs, chosen). chosen \<and> d \<in> set dofs) (zip (element_dofs fes) els))
       [0..<ndof fes]"

section \<open>The linear system of the interface problem\<close>

text \<open>
  The global objects of CutFEM.ipynb that the setup of the free degrees of freedom and
  the solve read and write. \<open>VhG.FreeDofs()\<close> returns the array the product space
  \<open>VhG\<close> itself holds, the mask of the boundary conditions, and \<open>freedofs\<close> names that
  array: the update \<open>&=\<close> overwrites it in place ("Overwrite freedofs ... of VhG", as
  the notebook says), so the state has the one field \<open>freedofs\<close>.
\<close>

record cutfem_state =
  freedofs :: BitArray
  gfu :: "real list"
  a_mat :: "real list list"
  f_vec :: "real list"

text \<open>
  \<^verbatim>\<open>
  hasneg = ci.GetElementsOfType(HASNEG)
  haspos = ci.GetElementsOfType(HASPOS)
  freedofs = VhG.FreeDofs()
  freedofs &= CompoundBitArray([GetDofsOfElements(Vh,hasneg),GetDofsOfElements(Vh,haspos)])
  \<close>
\<close>

definition activity_mask :: "fespace \<Rightarrow> sign list list \<Rightarrow> BitArray" where
  "activity_mask Vh ci =
     (let hasneg = GetElementsOfType ci HASNEG;
          haspos = GetElementsOfType ci HASPOS
      in CompoundBitArray [GetDofsOfElements Vh hasneg, GetDofsOfElements Vh haspos])"

definition setup_freedofs :: "fespace \<Rightarrow> sign list list \<Rightarrow> cutfem_state \<Rightarrow> cutfem_state" where
  "setup_freedofs Vh ci s = s\<lparr>freedofs := ba_and (freedofs s) (activity_mask Vh ci)\<rparr>"

text \<open>
  Vectors and (dense, row by row) matrices with the product \<open>a.mat * gfu.vec\<close>, the
  difference and the sum of vectors.
\<close>

definition mat_vec :: "real list list \<Rightarrow> real list \<Rightarrow> real list" where
  "mat_vec A x = map (\<lambda>row. sum_list (map2 (*) row x)) A"

definition vec_sub :: "real list \<Rightarrow> real list \<Rightarrow> real list" where
  "vec_sub x y = map2 (-) x y"

definition vec_add :: "real list \<Rightarrow> real list \<Rightarrow> real list" where
  "vec_add x y = map2 (+) x y"

text \<open>
  Modelled from the spec: \<open>a.mat.Inverse(freedofs)\<close> is the library's restricted solve.
  By section 6 of the specification the solve is restricted to a boolean mask of degrees
  of freedom: the reduced system on the free ones is solved and the rest is ignored. The
  solver of the reduced system is a parameter (\<open>solve\<close>, any function from a matrix and a
  right-hand side to a vector); its result is written to the free positions in order, and
  the product has a zero wherever \<open>freedofs\<close> is false.
\<close>

text \<open>Modelled from the spec: the numbers of the bits that are set, in increasing order.\<close>

definition free_indices :: "BitArray \<Rightarrow> nat list" where
  "free_indices fd = filter (\<lambda>i. fd ! i) [0..<length fd]"

text \<open>Modelled from the spec: the right-hand side of the reduced system.\<close>

definition restrict_vec :: "BitArray \<Rightarrow> real list \<Rightarrow> real list" where
  "restrict_vec fd x = map (\<lambda>i. x ! i) (free_indices fd)"

text \<open>Modelled from the spec: the matrix of the reduced system.\<close>

definition restrict_mat :: "BitArray \<Rightarrow> real list list \<Rightarrow> real list list" where
  "restrict_mat fd A = map (\<lambda>i. map (\<lambda>j. A ! i ! j) (free_indices fd)) (free_indices fd)"

text \<open>
  Modelled from the spec: the solution of the reduced system written back to the free
  positions, with zero at the others (and at free positions the solver left without a
  value).
\<close>

fun scatter :: "BitArray \<Rightarrow> real list \<Rightarrow> real list" where
  "scatter [] ys = []"
| "scatter (False # fd) ys = 0 # scatter fd ys"
| "scatter (True # fd) [] = 0 # scatter fd []"
| "scatter (True # fd) (y # ys) = y # scatter fd ys"

text \<open>Modelled from the spec: the product \<open>a.mat.Inverse(freedofs) * rhs\<close>.\<close>

definition Inverse :: "(real list list \<Rightarrow> real list \<Rightarrow> real list) \<Rightarrow> real list list \<Rightarrow> BitArray \<Rightarrow> real list \<Rightarrow> real list" where
  "Inverse solve A fd rhs = scatter fd (solve (restrict_mat fd A) (restrict_vec fd rhs))"

text \<open>
  \<^verbatim>\<open>
  def SolveLinearSystem():
      rhs = gfu.vec.CreateVector()
      rhs.data = f.vec - a.mat * gfu.vec
      update = gfu.vec.CreateVector()
      update.data = a.mat.Inverse(freedofs) * rhs
      gfu.vec.data += update
  \<close>
\<close>

definition SolveLinearSystem :: "(real list list \<Rightarrow> real list \<Rightarrow> real list) \<Rightarrow> cutfem_state \<Rightarrow> cutfem_state" where
  "SolveLinearSystem solve s =
     (let rhs = vec_sub (f_vec s) (mat_vec (a_mat s) (gfu s));
          update = Inverse solve (a_mat s) (freedofs s) rhs
      in s\<lparr>gfu := vec_add (gfu s) update\<rparr>)"

text \<open>A solver for examples: the reduced system is diagonal.\<close>

definition diagonal_solve :: "real list list \<Rightarrow> real list \<Rightarrow> real list" where
  "diagonal_solve A b = map (\<lambda>i. b ! i / A ! i ! i) [0..<length b]"

text \<open>
  An example on the mesh \<open>two_triangles\<close>: a space with one degree of freedom per element,
  so that the product space has four; the mask of the boundary conditions excludes the
  third, where \<open>gfu\<close> holds the boundary value 5.
\<close>

definition example_space :: fespace where
  "example_space = \<lparr>ndof = 2, element_dofs = [[0], [1]]\<rparr>"

definition example_state :: cutfem_state where
  "example_state =
     \<lparr>freedofs = [True, True, False, True],
      gfu = [0, 0, 5, 0],
      a_mat = [[2, 1, 1, 0], [1, 2, 0, 1], [1, 0, 2, 1], [0, 1, 1, 4]],
      f_vec = [9, 0, 0, 13]\<rparr>"

section \<open>Time stepping: the slab loop\<close>

subsection \<open>Double precision numbers\<close>










subsection \<open>The loops\<close>





section \<open>The space-time slabs\<close>

text \<open>
  The space-time space of intlset.ipynb is the tensor product of the spatial space
  \<open>H1(mesh, order=1)\<close> with the nodal time element \<open>ScalarTimeFE(1)\<close>, whose nodes are the
  reference times 0 and 1. The vector of a space-time \<open>GridFunction\<close> is the block of the
  values at reference time 0 followed by the block of the values at reference time 1,
  each with one entry per vertex.
\<close>

text \<open>
  Modelled from the spec: \<open>SpaceTimeFESpace(fes1, tfe)\<close> for the time element with the two
  nodes; the degrees of freedom of an element are those of the spatial element at either
  node.
\<close>

definition SpaceTimeFESpace :: "fespace \<Rightarrow> fespace" where
  "SpaceTimeFESpace fes1 =
     \<lparr>ndof = 2 * ndof fes1,
      element_dofs = map (\<lambda>dofs. dofs @ map (\<lambda>d. d + ndof fes1) dofs) (element_dofs fes1)\<rparr>"

text \<open>
  Modelled from the spec: \<open>SpaceTimeInterpolateToP1\<close> is a library function the notebook
  calls. By section 4.1 of the specification it produces the nodal field over the
  vertices and the temporal nodes of the slab \<open>[told, told + delta_t]\<close>.
\<close>

definition SpaceTimeInterpolateToP1 :: "(real \<Rightarrow> coefficient_function) \<Rightarrow> real \<Rightarrow> real \<Rightarrow> mesh \<Rightarrow> real list" where
  "SpaceTimeInterpolateToP1 ls t_old delta_t m =
     InterpolateToP1 (ls t_old) m @ InterpolateToP1 (ls (t_old + delta_t)) m"

text \<open>
  Modelled from the spec: \<open>RestrictGFInTime\<close> is a library function the notebook calls. By
  section 4.1 of the specification it extracts the field at a fixed reference time into a
  spatial nodal field and fails for a reference time outside \<open>[0, 1]\<close> or a field that
  does not match the space; between the two nodes the field is linear in time.
\<close>

definition RestrictGFInTime :: "nat \<Rightarrow> real list \<Rightarrow> real \<Rightarrow> real list option" where
  "RestrictGFInTime n spacetime_gf reference_time =
     (if 0 \<le> reference_time \<and> reference_time \<le> 1 \<and> length spacetime_gf = 2 * n
      then Some (map2 (\<lambda>bottom top. (1 - reference_time) * bottom + reference_time * top)
                   (take n spacetime_gf) (drop n spacetime_gf))
      else None)"

text \<open>
  Modelled from the spec: \<open>ci.Update(lset_p1, time_order=2*k_t)\<close> for a space-time level
  set. By section 4.2 of the specification the sign vector of an element holds the nodal
  values at all temporal nodes.
\<close>

definition CutInfo_Update :: "sign \<Rightarrow> mesh \<Rightarrow> real list \<Rightarrow> sign list list" where
  "CutInfo_Update zero m lset_st =
     map (\<lambda>el. map (\<lambda>v. vertex_sign zero (lset_st ! v)) el @
               map (\<lambda>v. vertex_sign zero (lset_st ! (v + length (vertices m)))) el)
       (elements m)"

text \<open>Modelled from the spec: membership of an element in a set given as a \<open>BitArray\<close>.\<close>

definition marked :: "BitArray \<Rightarrow> nat \<Rightarrow> bool" where
  "marked ba e = (e < length ba \<and> ba ! e)"

text \<open>
  Modelled from the spec: \<open>GetFacetsWithNeighborTypes(mesh, a, b)\<close> is a library function.
  By section 4.2 of the specification it returns the facets with one adjacent element in
  the set \<open>a\<close> and the other in the set \<open>b\<close>, or the other way round.
\<close>

definition GetFacetsWithNeighborTypes :: "mesh \<Rightarrow> BitArray \<Rightarrow> BitArray \<Rightarrow> BitArray" where
  "GetFacetsWithNeighborTypes m a b =
     map (\<lambda>nb. case nb of
                 [e1, e2] \<Rightarrow> (marked a e1 \<and> marked b e2) \<or> (marked a e2 \<and> marked b e1)
               | _ \<Rightarrow> False)
       (facets m)"

text \<open>
  The symbolic integrators the notebook collects in \<open>hasneg_integrators_a\<close>,
  \<open>hasneg_integrators_f\<close> and \<open>patch_integrators_a\<close>: each has its level-set domain (none
  for the facet patch integrator), its form and the marker set by
  \<open>SetDefinedOnElements\<close> (none before the first call).
\<close>

datatype levelset_domain = lset_neg | lset_neg_bottom | lset_neg_top

datatype form =
    minus_u_dt_v
  | convection
  | diffusion
  | top_trace_product
  | ghost_penalty
  | source
  | bottom_datum

record integrator =
  integrator_domain :: "levelset_domain option"
  integrator_form :: form
  definedonelements :: "BitArray option"

text \<open>
  Modelled from the spec: \<open>integrator.SetDefinedOnElements(ba)\<close> restricts the integrator
  to the elements, or facets, of the marker (section 4.7 of the specification).
\<close>

definition SetDefinedOnElements :: "BitArray \<Rightarrow> integrator \<Rightarrow> integrator" where
  "SetDefinedOnElements ba I = I\<lparr>definedonelements := Some ba\<rparr>"

text \<open>
  \<^verbatim>\<open>
  hasneg_integrators_a.append(SpaceTimeNegBFI(form = -u*dt(v)))
  hasneg_integrators_a.append(SpaceTimeNegBFI(form = -coef_delta_t*u*InnerProduct(w,grad(v))))
  hasneg_integrators_a.append(SpaceTimeNegBFI(form = coef_delta_t*alpha*grad(u)*grad(v)))
  hasneg_integrators_a.append(SymbolicBFI(levelset_domain = lset_neg_top, form = fix_t(u,1)*fix_t(v,1)))
  patch_integrators_a.append(SymbolicFacetPatchBFI(form = coef_delta_t*0.05*h**(-2)*(u-u.Other())*(v-v.Other()),
                                                   skeleton=False, time_order=2*k_t))
  hasneg_integrators_f.append(SymbolicLFI(levelset_domain = lset_neg, form = coef_delta_t*coeff_f*v, time_order=2*k_t))
  hasneg_integrators_f.append(SymbolicLFI(levelset_domain = lset_neg_bottom,form = u_last*fix_t(v,0)))
  \<close>
\<close>

definition initial_hasneg_integrators_a :: "integrator list" where
  "initial_hasneg_integrators_a =
     [\<lparr>integrator_domain = Some lset_neg, integrator_form = minus_u_dt_v, definedonelements = None\<rparr>,
      \<lparr>integrator_domain = Some lset_neg, integrator_form = convection, definedonelements = None\<rparr>,
      \<lparr>integrator_domain = Some lset_neg, integrator_form = diffusion, definedonelements = None\<rparr>,
      \<lparr>integrator_domain = Some lset_neg_top, integrator_form = top_trace_product,
        definedonelements = None\<rparr>]"

definition initial_patch_integrators_a :: "integrator list" where
  "initial_patch_integrators_a =
     [\<lparr>integrator_domain = None, integrator_form = ghost_penalty, definedonelements = None\<rparr>]"

definition initial_hasneg_integrators_f :: "integrator list" where
  "initial_hasneg_integrators_f =
     [\<lparr>integrator_domain = Some lset_neg, integrator_form = source, definedonelements = None\<rparr>,
      \<lparr>integrator_domain = Some lset_neg_bottom, integrator_form = bottom_datum,
        definedonelements = None\<rparr>]"

text \<open>
  The integrand of the facet patch integrator at a point, from the values there of the
  parameter \<open>coef_delta_t\<close>, of the mesh size \<open>h\<close>, and of the trial and test function on
  the element (\<open>u\<close>, \<open>v\<close>) and on its neighbour across the facet (\<open>u.Other()\<close>,
  \<open>v.Other()\<close>): \<open>coef_delta_t*0.05*h**(-2)*(u-u.Other())*(v-v.Other())\<close>.
\<close>

definition ghost_penalty_integrand :: "real \<Rightarrow> real \<Rightarrow> real \<Rightarrow> real \<Rightarrow> real \<Rightarrow> real \<Rightarrow> real" where
  "ghost_penalty_integrand coef_delta_t h u u_Other v v_Other =
     coef_delta_t * 0.05 * h powi (- 2) * (u - u_Other) * (v - v_Other)"

text \<open>
  Modelled from the spec: the assembly of a facet patch integrator belongs to the
  library. By section 4.6 of the specification the form is evaluated only on the facets
  of its marker: the assembled value is the sum, over the marked facets, of the integral
  of the form over the patch of the facet (\<open>patch_integral\<close>, the quadrature of the
  library); an integrator without a marker runs over every facet.
\<close>

definition assemble_facet_patch :: "nat \<Rightarrow> (nat \<Rightarrow> real) \<Rightarrow> integrator \<Rightarrow> real" where
  "assemble_facet_patch nfacets patch_integral I =
     (case definedonelements I of
        None \<Rightarrow> sum_list (map patch_integral [0..<nfacets])
      | Some ba \<Rightarrow> sum_list (map patch_integral (free_indices ba)))"

text \<open>
  The global objects of the space-time part of intlset.ipynb. The time within a slab is
  \<open>t = coef_told + coef_delta_t*tref\<close> for the reference time \<open>tref\<close>.
\<close>

record slab_state =
  slab_told :: real
  slab_coef_told :: real
  slab_coef_delta_t :: real
  slab_lset_p1 :: "real list"
  slab_lset_top :: "real list"
  slab_lset_bottom :: "real list"
  slab_ci :: "sign list list"
  slab_gfu :: "real list"
  slab_u_last :: "real list"
  hasneg_integrators_a :: "integrator list"
  hasneg_integrators_f :: "integrator list"
  patch_integrators_a :: "integrator list"
  slab_a_mat :: "real list list"
  slab_f_vec :: "real list"

definition physical_time :: "slab_state \<Rightarrow> real \<Rightarrow> real" where
  "physical_time s tref = slab_coef_told s + slab_coef_delta_t s * tref"

text \<open>
  What the library computes and the model takes as parameters: the assembly of the
  bilinear form from its integrators, the time parameters and the level sets, the
  assembly of the linear form, which in addition reads the field \<open>u_last\<close> of the form
  \<open>u_last*fix_t(v,0)\<close>, and the solver of the reduced system.
\<close>

record library =
  assemble_a :: "integrator list \<Rightarrow> real \<Rightarrow> real \<Rightarrow> real list \<Rightarrow> real list \<Rightarrow> real list list"
  assemble_f :: "integrator list \<Rightarrow> real \<Rightarrow> real \<Rightarrow> real list \<Rightarrow> real list \<Rightarrow> real list \<Rightarrow> real list"
  reduced_solve :: "real list list \<Rightarrow> real list \<Rightarrow> real list"

text \<open>
  \<^verbatim>\<open>
  def UpdateTimeSlabGeometry():
      SpaceTimeInterpolateToP1(levelset,coef_told,told,delta_t,lset_p1)
      RestrictGFInTime(spacetime_gf=lset_p1,reference_time=0.0,space_gf=lset_bottom)
      RestrictGFInTime(spacetime_gf=lset_p1,reference_time=1.0,space_gf=lset_top)

      # update markers in (space-time) mesh
      ci.Update(lset_p1,time_order=2 * k_t)
  \<close>
  A failing restriction raises; the model returns \<open>None\<close>.
\<close>

definition UpdateTimeSlabGeometry :: "sign \<Rightarrow> (real \<Rightarrow> coefficient_function) \<Rightarrow> mesh \<Rightarrow> real \<Rightarrow> slab_state \<Rightarrow> slab_state option" where
  "UpdateTimeSlabGeometry zero levelset m delta_t s =
     (let lset_p1 = SpaceTimeInterpolateToP1 levelset (slab_told s) delta_t m
      in case RestrictGFInTime (length (vertices m)) lset_p1 0 of
           None \<Rightarrow> None
         | Some lset_bottom \<Rightarrow>
             (case RestrictGFInTime (length (vertices m)) lset_p1 1 of
                None \<Rightarrow> None
              | Some lset_top \<Rightarrow>
                  Some (s\<lparr>slab_lset_p1 := lset_p1, slab_lset_bottom := lset_bottom,
                          slab_lset_top := lset_top,
                          slab_ci := CutInfo_Update zero m lset_p1\<rparr>)))"

text \<open>
  \<^verbatim>\<open>
  def UpdateLinearSystems():
      # re-compute the facets for stabilization:
      ba_facets = GetFacetsWithNeighborTypes(mesh,a=ci.GetElementsOfType(HASNEG),
                                                  b=ci.GetElementsOfType(IF))
      # re-set definedonelements-markers according to new markings:
      for integrator in hasneg_integrators_a + hasneg_integrators_f:
          integrator.SetDefinedOnElements(ci.GetElementsOfType(HASNEG))
      for integrator in patch_integrators_a:
          integrator.SetDefinedOnElements(ba_facets)

      # assemble linear system
      a.Assemble()
      f.Assemble()
  \<close>
  The forms \<open>a\<close> and \<open>f\<close> hold the integrator objects themselves, so the assembly sees
  the new markers.
\<close>

definition UpdateLinearSystems :: "library \<Rightarrow> mesh \<Rightarrow> slab_state \<Rightarrow> slab_state" where
  "UpdateLinearSystems lib m s =
     (let ba_facets = GetFacetsWithNeighborTypes m (GetElementsOfType (slab_ci s) HASNEG)
                        (GetElementsOfType (slab_ci s) IF);
          s = s\<lparr>hasneg_integrators_a :=
                   map (SetDefinedOnElements (GetElementsOfType (slab_ci s) HASNEG))
                     (hasneg_integrators_a s),
                 hasneg_integrators_f :=
                   map (SetDefinedOnElements (GetElementsOfType (slab_ci s) HASNEG))
                     (hasneg_integrators_f s)\<rparr>;
          s = s\<lparr>patch_integrators_a := map (SetDefinedOnElements ba_facets) (patch_integrators_a s)\<rparr>
      in s\<lparr>slab_a_mat :=
             assemble_a lib (hasneg_integrators_a s @ patch_integrators_a s)
               (slab_coef_told s) (slab_coef_delta_t s) (slab_lset_p1 s) (slab_lset_top s),
           slab_f_vec :=
             assemble_f lib (hasneg_integrators_f s)
               (slab_coef_told s) (slab_coef_delta_t s) (slab_lset_p1 s) (slab_lset_bottom s)
               (slab_u_last s)\<rparr>)"

text \<open>
  \<^verbatim>\<open>
  def SolveForTimeSlab():
      # re-evaluate the "active dofs" in the space time slab
      active_dofs = GetDofsOfElements(st_fes,ci.GetElementsOfType(HASNEG))
      # solve linear system
      inv = a.mat.Inverse(active_dofs,inverse="pardiso")
      gfu.vec.data =  inv * f.vec
  \<close>
\<close>

definition SolveForTimeSlab :: "library \<Rightarrow> fespace \<Rightarrow> slab_state \<Rightarrow> slab_state" where
  "SolveForTimeSlab lib st_fes s =
     (let active_dofs = GetDofsOfElements st_fes (GetElementsOfType (slab_ci s) HASNEG)
      in s\<lparr>slab_gfu := Inverse (reduced_solve lib) (slab_a_mat s) active_dofs (slab_f_vec s)\<rparr>)"

text \<open>
  \<^verbatim>\<open>
  def FinalizeStep():
      RestrictGFInTime(spacetime_gf=gfu,reference_time=1.0,space_gf=u_last)
      # compute error at end of time slab
      ...
  \<close>
  The error that is printed has no effect on the state and is left out.
\<close>

definition FinalizeStep :: "mesh \<Rightarrow> slab_state \<Rightarrow> slab_state option" where
  "FinalizeStep m s =
     (case RestrictGFInTime (length (vertices m)) (slab_gfu s) 1 of
        None \<Rightarrow> None
      | Some u \<Rightarrow> Some (s\<lparr>slab_u_last := u\<rparr>))"

text \<open>
  The body of the time loop:
  \<^verbatim>\<open>
  UpdateTimeSlabGeometry()
  UpdateLinearSystems()
  SolveForTimeSlab()
  told = told + delta_t
  coef_told.Set(told)
  FinalizeStep()
  \<close>
\<close>

definition slab_step :: "library \<Rightarrow> sign \<Rightarrow> (real \<Rightarrow> coefficient_function) \<Rightarrow> mesh \<Rightarrow> fespace \<Rightarrow> real \<Rightarrow> slab_state \<Rightarrow> slab_state option" where
  "slab_step lib zero levelset m st_fes delta_t s =
     (case UpdateTimeSlabGeometry zero levelset m delta_t s of
        None \<Rightarrow> None
      | Some s \<Rightarrow>
          (let s = UpdateLinearSystems lib m s;
               s = SolveForTimeSlab lib st_fes s;
               told = slab_told s + delta_t;
               s = s\<lparr>slab_told := told\<rparr>;
               s = s\<lparr>slab_coef_told := told\<rparr>
           in FinalizeStep m s))"

text \<open>
  The state before the loop, from the field \<open>u_init\<close> that \<open>u_last.Set(u_init)\<close> stores:
  \<^verbatim>\<open>
  coef_told = Parameter(0)
  ...
  coef_delta_t.Set(delta_t)
  told = 0
  \<close>
\<close>

definition initial_slab_state :: "real \<Rightarrow> real list \<Rightarrow> slab_state" where
  "initial_slab_state delta_t u_init =
     \<lparr>slab_told = 0, slab_coef_told = 0, slab_coef_delta_t = delta_t,
      slab_lset_p1 = [], slab_lset_top = [], slab_lset_bottom = [], slab_ci = [],
      slab_gfu = [], slab_u_last = u_init,
      hasneg_integrators_a = initial_hasneg_integrators_a,
      hasneg_integrators_f = initial_hasneg_integrators_f,
      patch_integrators_a = initial_patch_integrators_a,
      slab_a_mat = [], slab_f_vec = []\<rparr>"

text \<open>
  Examples on the mesh \<open>two_triangles\<close>: the spatial space with one degree of freedom per
  vertex, a library whose matrix is the identity and whose right-hand side is the datum
  \<open>u_last\<close> at the bottom node and twice the datum at the top node, a level set moving
  with unit speed, and a classification with the first element cut and the second
  negative.
\<close>

definition example_fes1 :: fespace where
  "example_fes1 = \<lparr>ndof = 4, element_dofs = [[0, 1, 2], [1, 3, 2]]\<rparr>"

definition example_library :: library where
  "example_library =
     \<lparr>assemble_a = (\<lambda>I ct cd lp lt. map (\<lambda>i. map (\<lambda>j. if i = j then 1 else 0) [0..<length lp]) [0..<length lp]),
      assemble_f = (\<lambda>I ct cd lp lb u. u @ map (\<lambda>x. 2 * x) u),
      reduced_solve = diagonal_solve\<rparr>"

definition example_levelset :: "real \<Rightarrow> coefficient_function" where
  "example_levelset t = (\<lambda>(x, y). x + y - 1 - t)"

definition example_ci :: "sign list list" where
  "example_ci = [[Negative, Positive, Negative], [Negative, Negative, Negative]]"

section \<open>Mesh deformation in the refinement and convergence drivers\<close>

text \<open>
  The calls the drivers make on the mesh, in program order. An integration or assembly
  carries the geometry its result is meant for: in intlset.ipynb the result variable
  (\<open>integrals_uncurved\<close>, \<open>integrals_curved\<close>), in CutFEM.ipynb the pass (the first
  solve, or the block under "Geometrically high order accuracy by SetDeformation").
\<close>

datatype geometry = Uncurved | Curved

datatype event =
    Refine
  | RefineAtLevelSet
  | CalcDeformation
  | SetDeformation
  | UnsetDeformation
  | Integrate domain_type geometry
  | Assemble geometry
  | Solve

text \<open>
  intlset.ipynb, "Convergence": the block that may be executed repeatedly.
  \<^verbatim>\<open>
  RefineAtLevelSet(gf=lset_approx)
  mesh.Refine()
  ...
  integral = Integrate(levelset_domain = { "levelset" : lset_approx, "domain_type" : NEG}, ...)
  \<close>
\<close>

definition refine_cut_elements :: "event list" where
  "refine_cut_elements = [RefineAtLevelSet, Refine, Integrate NEG Uncurved]"

text \<open>
  intlset.ipynb, "refinements":
  \<^verbatim>\<open>
  for reflevel in range(refinements):
      if(reflevel > 0):
          mesh.Refine()
      for key in [NEG,POS,IF]:
          deformation = lsetmeshadap.CalcDeformation(levelset)
          integrals_uncurved = Integrate(levelset_domain = { ..., "domain_type" : key}, ...)
          mesh.SetDeformation(deformation)
          integrals_curved = Integrate(levelset_domain = { ..., "domain_type" : key}, ...)
          mesh.UnsetDeformation()
          ...
      RefineAtLevelSet(gf=lsetmeshadap.lset_p1)
  \<close>
\<close>

definition key_body :: "domain_type \<Rightarrow> event list" where
  "key_body key =
     [CalcDeformation, Integrate key Uncurved, SetDeformation, Integrate key Curved,
      UnsetDeformation]"

definition level_body :: "nat \<Rightarrow> event list" where
  "level_body reflevel =
     (if reflevel > 0 then [Refine] else []) @
     concat (map key_body [NEG, POS, IF]) @
     [RefineAtLevelSet]"

definition refinement_study :: "nat \<Rightarrow> event list" where
  "refinement_study refinements = concat (map level_body [0..<refinements])"

text \<open>
  The integration part of intlset.ipynb from top to bottom: the first integral, the
  repeatable refinement block executed \<open>m\<close> times, the deformation that is computed and
  drawn but never set on the mesh, and the refinement study on a fresh mesh.
\<close>

definition intlset_integration_run :: "nat \<Rightarrow> nat \<Rightarrow> event list" where
  "intlset_integration_run m refinements =
     [Integrate NEG Uncurved] @ concat (replicate m refine_cut_elements) @
     [CalcDeformation] @ refinement_study refinements"

text \<open>
  CutFEM.ipynb: assembly, solve and error of the first pass, then
  \<^verbatim>\<open>
  deform = lsetad.CalcDeformation(levelset)
  mesh.SetDeformation(deform)
  a.Assemble()
  f.Assemble()
  SolveLinearSystem()
  ComputeError()
  mesh.UnsetDeformation()
  \<close>
  where \<open>ComputeError\<close> integrates over \<open>NEG\<close> and over \<open>POS\<close>.
\<close>

definition ComputeError_events :: "geometry \<Rightarrow> event list" where
  "ComputeError_events g = [Integrate NEG g, Integrate POS g]"

definition cutfem_run :: "event list" where
  "cutfem_run =
     [Assemble Uncurved, Assemble Uncurved, Solve] @ ComputeError_events Uncurved @
     [CalcDeformation, SetDeformation, Assemble Curved, Assemble Curved, Solve] @
     ComputeError_events Curved @ [UnsetDeformation]"

text \<open>Whether a deformation is set on the mesh after a sequence of calls.\<close>

fun deformation_active :: "bool \<Rightarrow> event list \<Rightarrow> bool" where
  "deformation_active d [] = d"
| "deformation_active d (SetDeformation # es) = deformation_active True es"
| "deformation_active d (UnsetDeformation # es) = deformation_active False es"
| "deformation_active d (e # es) = deformation_active d es"

text \<open>
  A monitor for the discipline. A call is refused (\<open>None\<close>) when it sets a deformation
  that is already set, unsets one that is not set, changes or marks the mesh for
  refinement under a deformation, or integrates or assembles for the curved geometry
  without a deformation (or for the uncurved one with it).
\<close>

fun step_event :: "bool \<Rightarrow> event \<Rightarrow> bool option" where
  "step_event d SetDeformation = (if d then None else Some True)"
| "step_event d UnsetDeformation = (if d then Some False else None)"
| "step_event d Refine = (if d then None else Some d)"
| "step_event d RefineAtLevelSet = (if d then None else Some d)"
| "step_event d (Integrate k g) = (if (g = Curved) = d then Some d else None)"
| "step_event d (Assemble g) = (if (g = Curved) = d then Some d else None)"
| "step_event d CalcDeformation = Some d"
| "step_event d Solve = Some d"

fun run_events :: "bool \<Rightarrow> event list \<Rightarrow> bool option" where
  "run_events d [] = Some d"
| "run_events d (e # es) = (case step_event d e of None \<Rightarrow> None | Some d' \<Rightarrow> run_events d' es)"

definition topology_change :: "event \<Rightarrow> bool" where
  "topology_change e = (e = Refine \<or> e = RefineAtLevelSet)"

definition curved_work :: "event \<Rightarrow> bool" where
  "curved_work e = (case e of Integrate k g \<Rightarrow> g = Curved | Assemble g \<Rightarrow> g = Curved | _ \<Rightarrow> False)"

section \<open>The band of active elements of the moving-surface problem\<close>

text \<open>
  MoL_TraceFEM.ipynb:
  \<^verbatim>\<open>
  def UpdateBand(lset,offset,ba_band_IF):
     ba_band_IF.Clear()
     ba_band_IF_P = BitArray(ba_band_IF)
     ba_band_IF_P.Clear()
     ba_band_IF_M = BitArray(ba_band_IF)
     ba_band_IF_M.Clear()

     # all elements that have level set values in [-offset,+offset] with offset = vel * dt
     lset_approx_band = GridFunction(H1(mesh,order=1))
     InterpolateToP1(lset+offset,lset_approx_band)
     ci = CutInfo(mesh, lset_approx_band)
     ba_band_IF_P |= ci.GetElementsOfType(POS)
     ba_band_IF_P |= ci.GetElementsOfType(IF)

     InterpolateToP1(lset-offset,lset_approx_band)
     ci = CutInfo(mesh, lset_approx_band)
     ba_band_IF_M |= ci.GetElementsOfType(NEG)
     ba_band_IF_M |= ci.GetElementsOfType(IF)

     ba_band_IF |= ba_band_IF_P
     ba_band_IF &= ba_band_IF_M
     ...
  \<close>
  The function updates \<open>ba_band_IF\<close> in place; the model returns the new array. The copy
  of the result into the visualisation field \<open>visband\<close> is left out.
\<close>

definition UpdateBand :: "sign \<Rightarrow> mesh \<Rightarrow> coefficient_function \<Rightarrow> real \<Rightarrow> BitArray \<Rightarrow> BitArray" where
  "UpdateBand zero m lset offset ba_band_IF =
     (let ba_band_IF = Clear ba_band_IF;
          ba_band_IF_P = Clear ba_band_IF;
          ba_band_IF_M = Clear ba_band_IF;
          lset_approx_band = InterpolateToP1 (\<lambda>p. lset p + offset) m;
          ci = CutInfo zero m lset_approx_band;
          ba_band_IF_P = ba_or ba_band_IF_P (GetElementsOfType ci POS);
          ba_band_IF_P = ba_or ba_band_IF_P (GetElementsOfType ci IF);
          lset_approx_band = InterpolateToP1 (\<lambda>p. lset p - offset) m;
          ci = CutInfo zero m lset_approx_band;
          ba_band_IF_M = ba_or ba_band_IF_M (GetElementsOfType ci NEG);
          ba_band_IF_M = ba_or ba_band_IF_M (GetElementsOfType ci IF);
          ba_band_IF = ba_or ba_band_IF ba_band_IF_P;
          ba_band_IF = ba_and ba_band_IF ba_band_IF_M
      in ba_band_IF)"

text \<open>
  The data of the notebook:
  \<^verbatim>\<open>
  vel = 1
  R = 0.5
  def levelset_function(t):
      return sqrt((x-vel*t)*(x-vel*t)+y*y) - R
  dt = 0.0025
  \<close>
\<close>

definition vel :: real where
  "vel = 1"

definition R :: real where
  "R = 0.5"

definition dt :: real where
  "dt = 0.0025"

definition levelset_function :: "real \<Rightarrow> coefficient_function" where
  "levelset_function t = (\<lambda>(x, y). sqrt ((x - vel * t) * (x - vel * t) + y * y) - R)"

text \<open>
  The element sets of one time step, from the body of the time loop:
  \<^verbatim>\<open>
  tnew = told + dt
  ...
  InterpolateToP1(levelset_function(tnew),lset_approx)
  ci = CutInfo(mesh, lset_approx)
  ba_new_IF = ci.GetElementsOfType(IF)

  UpdateBand(levelset_function(tnew),vel*dt,ba_band_IF)
  \<close>
  \<open>ba_new_IF\<close> carries the interface integrals of the step, \<open>ba_band_IF\<close> the active
  degrees of freedom and the normal-derivative stabilisation.
\<close>

definition step_element_sets :: "sign \<Rightarrow> mesh \<Rightarrow> real \<Rightarrow> BitArray \<Rightarrow> BitArray \<times> BitArray" where
  "step_element_sets zero m told ba_band_IF =
     (let tnew = told + dt;
          lset_approx = InterpolateToP1 (levelset_function tnew) m;
          ci = CutInfo zero m lset_approx;
          ba_new_IF = GetElementsOfType ci IF;
          ba_band_IF = UpdateBand zero m (levelset_function tnew) (vel * dt) ba_band_IF
      in (ba_new_IF, ba_band_IF))"

chapter \<open>Properties\<close>

subsection \<open>BitArray operations, bit by bit\<close>

lemma length_Clear: "length (Clear ba) = length ba"
  by (simp add: Clear_def)

lemma nth_Clear: "i < length ba \<Longrightarrow> Clear ba ! i = False"
  by (simp add: Clear_def)

lemma length_ba_or: "length (ba_or a b) = min (length a) (length b)"
  by (simp add: ba_or_def)

lemma length_ba_and: "length (ba_and a b) = min (length a) (length b)"
  by (simp add: ba_and_def)

lemma nth_ba_or: "i < length a \<Longrightarrow> i < length b \<Longrightarrow> ba_or a b ! i = (a ! i \<or> b ! i)"
  by (simp add: ba_or_def)

lemma nth_ba_and: "i < length a \<Longrightarrow> i < length b \<Longrightarrow> ba_and a b ! i = (a ! i \<and> b ! i)"
  by (simp add: ba_and_def)

lemma ba_set_iff: "i \<in> ba_set ba \<longleftrightarrow> i < length ba \<and> ba ! i"
  by (auto simp: ba_set_def)

subsection \<open>Every element is in exactly one of NEG, POS and IF\<close>

lemma sign_not_Negative: "s \<noteq> Negative \<longleftrightarrow> s = Positive"
  by (cases s) simp_all

lemma vertex_sign_Negative: "vertex_sign zero v = Negative \<longleftrightarrow> v < 0 \<or> (v = 0 \<and> zero = Negative)"
  by (cases zero) (auto simp: vertex_sign_def)

lemma vertex_sign_Positive: "vertex_sign zero v = Positive \<longleftrightarrow> 0 < v \<or> (v = 0 \<and> zero = Positive)"
  by (cases zero) (auto simp: vertex_sign_def)

lemma length_CutInfo: "length (CutInfo zero m lset) = ne m"
  by (simp add: CutInfo_def ne_def)

lemma length_GetElementsOfType: "length (GetElementsOfType ci t) = length ci"
  by (simp add: GetElementsOfType_def)

lemma nth_GetElementsOfType:
  "e < ne m \<Longrightarrow>
   GetElementsOfType (CutInfo zero m lset) t ! e =
   element_of_type t (map (\<lambda>v. vertex_sign zero (lset ! v)) (elements m ! e))"
  by (simp add: GetElementsOfType_def CutInfo_def ne_def)

lemma not_all_Negative: "\<not> list_all (\<lambda>s. s = Negative) sv \<longleftrightarrow> list_ex (\<lambda>s. s = Positive) sv"
  by (auto simp: list_all_iff list_ex_iff sign_not_Negative)

lemma not_all_Positive: "\<not> list_all (\<lambda>s. s = Positive) sv \<longleftrightarrow> list_ex (\<lambda>s. s = Negative) sv"
  by (auto simp: list_all_iff list_ex_iff sign_not_Negative[symmetric])

lemma list_ex_sign_map:
  "list_ex (\<lambda>s. s = c) (map (\<lambda>v. vertex_sign zero (g v)) xs) =
   (\<exists>v \<in> set xs. vertex_sign zero (g v) = c)"
  by (auto simp: list_ex_iff)

lemma list_all_sign_map:
  "list_all (\<lambda>s. s = c) (map (\<lambda>v. vertex_sign zero (g v)) xs) =
   (\<forall>v \<in> set xs. vertex_sign zero (g v) = c)"
  by (auto simp: list_all_iff)

lemma exactly_one_type:
  assumes "sv \<noteq> []"
  shows "(element_of_type NEG sv \<and> \<not> element_of_type POS sv \<and> \<not> element_of_type IF sv) \<or>
         (\<not> element_of_type NEG sv \<and> element_of_type POS sv \<and> \<not> element_of_type IF sv) \<or>
         (\<not> element_of_type NEG sv \<and> \<not> element_of_type POS sv \<and> element_of_type IF sv)"
proof (cases "list_all (\<lambda>s. s = Negative) sv")
  case True
  with assms have "\<not> list_all (\<lambda>s. s = Positive) sv"
    by (cases sv) auto
  moreover from True have "\<not> list_ex (\<lambda>s. s = Positive) sv"
    using not_all_Negative by blast
  ultimately show ?thesis using True by simp
next
  case False
  then have p: "list_ex (\<lambda>s. s = Positive) sv"
    using not_all_Negative by blast
  show ?thesis
  proof (cases "list_all (\<lambda>s. s = Positive) sv")
    case True
    then have "\<not> list_ex (\<lambda>s. s = Negative) sv"
      using not_all_Positive by blast
    with True False show ?thesis by simp
  next
    case nP: False
    then have "list_ex (\<lambda>s. s = Negative) sv"
      using not_all_Positive by blast
    with p nP False show ?thesis by simp
  qed
qed

lemma nth_GetElementsOfType_Update:
  "e < ne m \<Longrightarrow>
   GetElementsOfType (CutInfo_Update zero m lset_st) t ! e =
   element_of_type t
     (map (\<lambda>v. vertex_sign zero (lset_st ! v)) (elements m ! e) @
      map (\<lambda>v. vertex_sign zero (lset_st ! (v + length (vertices m)))) (elements m ! e))"
  by (simp add: GetElementsOfType_def CutInfo_Update_def ne_def)

lemma classification_of_values:
  fixes zero :: sign and vals :: "real list"
  assumes "vals \<noteq> []"
  defines "sv \<equiv> map (vertex_sign zero) vals"
  shows "((element_of_type NEG sv \<and> \<not> element_of_type POS sv \<and> \<not> element_of_type IF sv) \<or>
          (\<not> element_of_type NEG sv \<and> element_of_type POS sv \<and> \<not> element_of_type IF sv) \<or>
          (\<not> element_of_type NEG sv \<and> \<not> element_of_type POS sv \<and> element_of_type IF sv)) \<and>
         element_of_type NEG sv = (\<forall>v \<in> set vals. v < 0 \<or> (v = 0 \<and> zero = Negative)) \<and>
         element_of_type POS sv = (\<forall>v \<in> set vals. 0 < v \<or> (v = 0 \<and> zero = Positive)) \<and>
         element_of_type IF sv =
           (\<not> (\<forall>v \<in> set vals. v < 0 \<or> (v = 0 \<and> zero = Negative)) \<and>
            \<not> (\<forall>v \<in> set vals. 0 < v \<or> (v = 0 \<and> zero = Positive))) \<and>
         element_of_type HASNEG sv = (\<exists>v \<in> set vals. v < 0 \<or> (v = 0 \<and> zero = Negative)) \<and>
         element_of_type HASPOS sv = (\<exists>v \<in> set vals. 0 < v \<or> (v = 0 \<and> zero = Positive)) \<and>
         (element_of_type IF sv \<longrightarrow> element_of_type HASNEG sv \<and> element_of_type HASPOS sv)"
proof -
  have ne: "sv \<noteq> []"
    using assms(1) by (simp add: sv_def)
  have N: "element_of_type NEG sv = (\<forall>v \<in> set vals. v < 0 \<or> (v = 0 \<and> zero = Negative))"
    using list_all_sign_map[of Negative zero "\<lambda>v. v" vals]
    by (simp add: sv_def vertex_sign_Negative)
  have P: "element_of_type POS sv = (\<forall>v \<in> set vals. 0 < v \<or> (v = 0 \<and> zero = Positive))"
    using list_all_sign_map[of Positive zero "\<lambda>v. v" vals]
    by (simp add: sv_def vertex_sign_Positive)
  have HN: "element_of_type HASNEG sv = (\<exists>v \<in> set vals. v < 0 \<or> (v = 0 \<and> zero = Negative))"
    using list_ex_sign_map[of Negative zero "\<lambda>v. v" vals]
    by (simp add: sv_def vertex_sign_Negative)
  have HP: "element_of_type HASPOS sv = (\<exists>v \<in> set vals. 0 < v \<or> (v = 0 \<and> zero = Positive))"
    using list_ex_sign_map[of Positive zero "\<lambda>v. v" vals]
    by (simp add: sv_def vertex_sign_Positive)
  have C: "element_of_type IF sv = (\<not> element_of_type NEG sv \<and> \<not> element_of_type POS sv)"
    using not_all_Negative[of sv] not_all_Positive[of sv] by auto
  have CH: "element_of_type IF sv \<longrightarrow> element_of_type HASNEG sv \<and> element_of_type HASPOS sv"
    by simp
  note one = exactly_one_type[OF ne]
  from one N P HN HP C CH show ?thesis
    by (intro conjI) (simp_all only:)
qed

text \<open>
  C2. After \<open>CutInfo\<close> is built from a piecewise linear level set, or updated with a
  space-time level set (whose nodal values on an element are those at both nodes in
  time), every element with at least one vertex is in exactly one of the sets \<open>NEG\<close>,
  \<open>POS\<close> and \<open>IF\<close> (the cut elements); it is in \<open>IF\<close> if and only if its nodal values are
  neither all negative nor all positive, a value zero counting as the sign \<open>zero\<close>; it is
  in \<open>HASNEG\<close> if and only if some nodal value is negative and in \<open>HASPOS\<close> if and only if
  some nodal value is positive, under the same convention; and a cut element is in both
  \<open>HASNEG\<close> and \<open>HASPOS\<close>.
\<close>

theorem cutinfo_classification:
  assumes "e < ne m" and "elements m ! e \<noteq> []"
    and "(ci = CutInfo zero m lset \<and> vals = map (\<lambda>v. lset ! v) (elements m ! e)) \<or>
         (ci = CutInfo_Update zero m lset_st \<and>
          vals = map (\<lambda>v. lset_st ! v) (elements m ! e) @
                 map (\<lambda>v. lset_st ! (v + length (vertices m))) (elements m ! e))"
  shows
    "(let neg = (\<lambda>v. v < 0 \<or> (v = 0 \<and> zero = Negative));
          pos = (\<lambda>v. 0 < v \<or> (v = 0 \<and> zero = Positive));
          is_NEG = GetElementsOfType ci NEG ! e;
          is_POS = GetElementsOfType ci POS ! e;
          is_CUT = GetElementsOfType ci IF ! e;
          has_neg = GetElementsOfType ci HASNEG ! e;
          has_pos = GetElementsOfType ci HASPOS ! e
      in ((is_NEG \<and> \<not> is_POS \<and> \<not> is_CUT) \<or> (\<not> is_NEG \<and> is_POS \<and> \<not> is_CUT) \<or>
          (\<not> is_NEG \<and> \<not> is_POS \<and> is_CUT)) \<and>
         is_NEG = (\<forall>v \<in> set vals. neg v) \<and>
         is_POS = (\<forall>v \<in> set vals. pos v) \<and>
         is_CUT = (\<not> (\<forall>v \<in> set vals. neg v) \<and> \<not> (\<forall>v \<in> set vals. pos v)) \<and>
         has_neg = (\<exists>v \<in> set vals. neg v) \<and>
         has_pos = (\<exists>v \<in> set vals. pos v) \<and>
         (is_CUT \<longrightarrow> has_neg \<and> has_pos))"
proof -
  have vals: "vals \<noteq> []"
    using assms(2,3) by auto
  have nth: "GetElementsOfType ci t ! e = element_of_type t (map (vertex_sign zero) vals)" for t
    using assms(1,3) by (auto simp: nth_GetElementsOfType nth_GetElementsOfType_Update comp_def)
  show ?thesis
    unfolding Let_def nth using classification_of_values[OF vals, of zero] .
qed

theorem cutinfo_classification_witness:
  "0 < ne two_triangles \<and> elements two_triangles ! 0 \<noteq> [] \<and>
   map (\<lambda>v. [- 1, 0, 0, 1 :: real] ! v) (elements two_triangles ! 0) = [- 1, 0, 0] \<and>
   \<not> GetElementsOfType (CutInfo Positive two_triangles [- 1, 0, 0, 1]) NEG ! 0 \<and>
   \<not> GetElementsOfType (CutInfo Positive two_triangles [- 1, 0, 0, 1]) POS ! 0 \<and>
   GetElementsOfType (CutInfo Positive two_triangles [- 1, 0, 0, 1]) IF ! 0 \<and>
   GetElementsOfType (CutInfo Positive two_triangles [- 1, 0, 0, 1]) HASNEG ! 0 \<and>
   GetElementsOfType (CutInfo Positive two_triangles [- 1, 0, 0, 1]) HASPOS ! 0 \<and>
   1 < ne two_triangles \<and> elements two_triangles ! 1 \<noteq> [] \<and>
   map (\<lambda>v. [- 1, 0, 0, 1, - 2, - 1, - 1, 0 :: real] ! v) (elements two_triangles ! 1) @
   map (\<lambda>v. [- 1, 0, 0, 1, - 2, - 1, - 1, 0 :: real] ! (v + length (vertices two_triangles)))
     (elements two_triangles ! 1) = [0, 1, 0, - 1, 0, - 1] \<and>
   GetElementsOfType (CutInfo_Update Positive two_triangles [- 1, 0, 0, 1, - 2, - 1, - 1, 0]) IF ! 1 \<and>
   \<not> GetElementsOfType (CutInfo_Update Positive two_triangles [- 1, 0, 0, 1, - 2, - 1, - 1, 0]) POS ! 1 \<and>
   GetElementsOfType (CutInfo_Update Positive two_triangles [- 1, 0, 0, 1, - 2, - 1, - 1, 0]) HASNEG ! 1"
proof -
  have h1: "0 < ne two_triangles" and h2: "elements two_triangles ! 0 \<noteq> []"
    and k1: "1 < ne two_triangles" and k2: "elements two_triangles ! 1 \<noteq> []"
    by (simp_all add: two_triangles_def ne_def)
  have vals: "map (\<lambda>v. [- 1, 0, 0, 1 :: real] ! v) (elements two_triangles ! 0) = [- 1, 0, 0]"
    by (simp add: two_triangles_def)
  have vals_st: "map (\<lambda>v. [- 1, 0, 0, 1, - 2, - 1, - 1, 0 :: real] ! v) (elements two_triangles ! 1) @
      map (\<lambda>v. [- 1, 0, 0, 1, - 2, - 1, - 1, 0 :: real] ! (v + length (vertices two_triangles)))
        (elements two_triangles ! 1) = [0, 1, 0, - 1, 0, - 1]"
    by (simp add: two_triangles_def)
  from cutinfo_classification[OF h1 h2 disjI1[OF conjI[OF refl vals[symmetric]]], of Positive]
  have a: "\<not> GetElementsOfType (CutInfo Positive two_triangles [- 1, 0, 0, 1]) NEG ! 0 \<and>
      \<not> GetElementsOfType (CutInfo Positive two_triangles [- 1, 0, 0, 1]) POS ! 0 \<and>
      GetElementsOfType (CutInfo Positive two_triangles [- 1, 0, 0, 1]) IF ! 0 \<and>
      GetElementsOfType (CutInfo Positive two_triangles [- 1, 0, 0, 1]) HASNEG ! 0 \<and>
      GetElementsOfType (CutInfo Positive two_triangles [- 1, 0, 0, 1]) HASPOS ! 0"
    by (simp add: Let_def)
  from cutinfo_classification[OF k1 k2 disjI2[OF conjI[OF refl vals_st[symmetric]]], of Positive]
  have b: "GetElementsOfType (CutInfo_Update Positive two_triangles [- 1, 0, 0, 1, - 2, - 1, - 1, 0]) IF ! 1 \<and>
      \<not> GetElementsOfType (CutInfo_Update Positive two_triangles [- 1, 0, 0, 1, - 2, - 1, - 1, 0]) POS ! 1 \<and>
      GetElementsOfType (CutInfo_Update Positive two_triangles [- 1, 0, 0, 1, - 2, - 1, - 1, 0]) HASNEG ! 1"
    by (simp add: Let_def)
  from h1 h2 vals a k1 k2 vals_st b show ?thesis
    by (intro conjI) simp_all
qed

subsection \<open>The free degrees of freedom are the boundary-condition mask cut down to the active ones\<close>

lemma ba_set_ba_and: "ba_set (ba_and a b) = ba_set a \<inter> ba_set b"
  by (auto simp: ba_set_iff length_ba_and nth_ba_and)

lemma length_GetDofsOfElements: "length (GetDofsOfElements fes els) = ndof fes"
  by (simp add: GetDofsOfElements_def)

lemma length_activity_mask: "length (activity_mask Vh ci) = 2 * ndof Vh"
  by (simp add: activity_mask_def CompoundBitArray_def Let_def length_GetDofsOfElements)

lemma freedofs_setup_freedofs:
  "freedofs (setup_freedofs Vh ci s) = ba_and (freedofs s) (activity_mask Vh ci)"
  by (simp add: setup_freedofs_def)

text \<open>
  C3. For every classification \<open>ci\<close>: when the array of \<open>VhG\<close> has one bit per degree of
  freedom of the product space, the mask \<open>freedofs\<close> after the update \<open>&=\<close> has the same
  size, its bit \<open>i\<close> is the conjunction of the bit \<open>i\<close> of the mask supplied by \<open>VhG\<close> and
  of the compound activity mask of the \<open>HASNEG\<close> and \<open>HASPOS\<close> elements, so as a set it is
  the intersection of the two and a subset of the supplied mask. The update changes
  nothing else.
\<close>

theorem freedofs_is_intersection:
  assumes "length (freedofs s) = 2 * ndof Vh"
  shows "length (freedofs (setup_freedofs Vh ci s)) = length (freedofs s) \<and>
         (\<forall>i. i < length (freedofs s) \<longrightarrow>
            freedofs (setup_freedofs Vh ci s) ! i = (freedofs s ! i \<and> activity_mask Vh ci ! i)) \<and>
         ba_set (freedofs (setup_freedofs Vh ci s)) = ba_set (freedofs s) \<inter> ba_set (activity_mask Vh ci) \<and>
         ba_set (freedofs (setup_freedofs Vh ci s)) \<subseteq> ba_set (freedofs s) \<and>
         gfu (setup_freedofs Vh ci s) = gfu s \<and> a_mat (setup_freedofs Vh ci s) = a_mat s \<and>
         f_vec (setup_freedofs Vh ci s) = f_vec s"
proof -
  have len: "length (activity_mask Vh ci) = length (freedofs s)"
    using assms by (simp add: length_activity_mask)
  have 1: "length (freedofs (setup_freedofs Vh ci s)) = length (freedofs s)"
    by (simp add: freedofs_setup_freedofs length_ba_and len)
  have 2: "freedofs (setup_freedofs Vh ci s) ! i = (freedofs s ! i \<and> activity_mask Vh ci ! i)"
    if "i < length (freedofs s)" for i
    using that len by (simp add: freedofs_setup_freedofs nth_ba_and)
  have 3: "ba_set (freedofs (setup_freedofs Vh ci s)) = ba_set (freedofs s) \<inter> ba_set (activity_mask Vh ci)"
    by (simp add: freedofs_setup_freedofs ba_set_ba_and)
  then have 4: "ba_set (freedofs (setup_freedofs Vh ci s)) \<subseteq> ba_set (freedofs s)"
    by blast
  have 5: "gfu (setup_freedofs Vh ci s) = gfu s \<and> a_mat (setup_freedofs Vh ci s) = a_mat s \<and>
         f_vec (setup_freedofs Vh ci s) = f_vec s"
    by (simp add: setup_freedofs_def)
  from 1 2 3 4 5 show ?thesis by blast
qed

lemma example_activity_mask:
  "activity_mask example_space (CutInfo Positive two_triangles [- 1, 0, 0, 1]) =
   [True, False, True, True]"
  by (simp add: activity_mask_def Let_def CompoundBitArray_def GetDofsOfElements_def
      GetElementsOfType_def CutInfo_def two_triangles_def example_space_def vertex_sign_def
      numeral_2_eq_2)

theorem freedofs_is_intersection_witness:
  "length (freedofs example_state) = 2 * ndof example_space \<and>
   freedofs example_state = [True, True, False, True] \<and>
   activity_mask example_space (CutInfo Positive two_triangles [- 1, 0, 0, 1]) =
     [True, False, True, True] \<and>
   freedofs (setup_freedofs example_space (CutInfo Positive two_triangles [- 1, 0, 0, 1]) example_state) =
     [True, False, False, True] \<and>
   ba_set (freedofs (setup_freedofs example_space (CutInfo Positive two_triangles [- 1, 0, 0, 1])
     example_state)) \<subseteq> ba_set (freedofs example_state)"
proof -
  have h: "length (freedofs example_state) = 2 * ndof example_space"
    by (simp add: example_state_def example_space_def)
  have f: "freedofs example_state = [True, True, False, True]"
    by (simp add: example_state_def)
  have r: "freedofs (setup_freedofs example_space (CutInfo Positive two_triangles [- 1, 0, 0, 1])
      example_state) = [True, False, False, True]"
    by (simp add: setup_freedofs_def example_activity_mask ba_and_def f)
  from freedofs_is_intersection[OF h, of "CutInfo Positive two_triangles [- 1, 0, 0, 1]"]
    h f r example_activity_mask
  show ?thesis
    by (intro conjI) simp_all
qed

subsection \<open>The solve changes the solution on free degrees of freedom only\<close>

lemma length_scatter: "length (scatter fd ys) = length fd"
  by (induction fd ys rule: scatter.induct) simp_all

lemma scatter_not_free: "i < length fd \<Longrightarrow> \<not> fd ! i \<Longrightarrow> scatter fd ys ! i = 0"
proof (induction fd ys arbitrary: i rule: scatter.induct)
  case (1 ys)
  then show ?case by simp
next
  case (2 fd ys)
  then show ?case by (cases i) simp_all
next
  case (3 fd)
  then show ?case by (cases i) simp_all
next
  case (4 fd y ys)
  then show ?case by (cases i) simp_all
qed

lemma length_Inverse: "length (Inverse solve A fd rhs) = length fd"
  by (simp add: Inverse_def length_scatter)

lemma Inverse_not_free: "i < length fd \<Longrightarrow> \<not> fd ! i \<Longrightarrow> Inverse solve A fd rhs ! i = 0"
  by (simp add: Inverse_def scatter_not_free)

lemma gfu_SolveLinearSystem:
  "gfu (SolveLinearSystem solve s) =
   vec_add (gfu s)
     (Inverse solve (a_mat s) (freedofs s) (vec_sub (f_vec s) (mat_vec (a_mat s) (gfu s))))"
  by (simp add: SolveLinearSystem_def Let_def)

lemma solve_frame:
  assumes "length (freedofs s) = length (gfu s)" and "i < length (gfu s)" and "\<not> freedofs s ! i"
  shows "gfu (SolveLinearSystem solve s) ! i = gfu s ! i"
  using assms
  by (simp add: gfu_SolveLinearSystem vec_add_def length_Inverse Inverse_not_free)

text \<open>
  C10. When \<open>freedofs\<close> has one bit per entry of the solution vector, \<open>SolveLinearSystem\<close>
  (with any solver of the reduced system) keeps the size of \<open>gfu\<close>, the update it adds is
  zero at every degree of freedom that is not marked in \<open>freedofs\<close>, and the entry of
  \<open>gfu\<close> there is unchanged; the mask, the matrix and the right-hand side are untouched.
  With \<open>freedofs\<close> as set up from the mask of \<open>VhG\<close> and a classification, this holds in
  particular at every degree of freedom that the mask of \<open>VhG\<close> excludes (the Dirichlet
  ones, whose boundary values were written into \<open>gfu\<close> before) and at every inactive one.
\<close>

theorem solve_changes_free_dofs_only:
  assumes "length (freedofs s) = length (gfu s)"
  shows "length (gfu (SolveLinearSystem solve s)) = length (gfu s) \<and>
         (\<forall>i. i < length (gfu s) \<and> \<not> freedofs s ! i \<longrightarrow>
            Inverse solve (a_mat s) (freedofs s) (vec_sub (f_vec s) (mat_vec (a_mat s) (gfu s))) ! i = 0 \<and>
            gfu (SolveLinearSystem solve s) ! i = gfu s ! i) \<and>
         (\<forall>i. i < length (gfu s) \<and> length (freedofs s) = 2 * ndof Vh \<and>
              \<not> (freedofs s ! i \<and> activity_mask Vh ci ! i) \<longrightarrow>
            gfu (SolveLinearSystem solve (setup_freedofs Vh ci s)) ! i = gfu s ! i) \<and>
         freedofs (SolveLinearSystem solve s) = freedofs s \<and>
         a_mat (SolveLinearSystem solve s) = a_mat s \<and>
         f_vec (SolveLinearSystem solve s) = f_vec s"
proof -
  have 1: "length (gfu (SolveLinearSystem solve s)) = length (gfu s)"
    using assms by (simp add: gfu_SolveLinearSystem vec_add_def length_Inverse)
  have 2: "Inverse solve (a_mat s) (freedofs s) (vec_sub (f_vec s) (mat_vec (a_mat s) (gfu s))) ! i = 0 \<and>
            gfu (SolveLinearSystem solve s) ! i = gfu s ! i"
    if "i < length (gfu s) \<and> \<not> freedofs s ! i" for i
    using that assms by (simp add: Inverse_not_free solve_frame)
  have 3: "gfu (SolveLinearSystem solve (setup_freedofs Vh ci s)) ! i = gfu s ! i"
    if h: "i < length (gfu s) \<and> length (freedofs s) = 2 * ndof Vh \<and>
          \<not> (freedofs s ! i \<and> activity_mask Vh ci ! i)" for i
  proof -
    let ?s = "setup_freedofs Vh ci s"
    have g: "gfu ?s = gfu s"
      by (simp add: setup_freedofs_def)
    have len: "length (activity_mask Vh ci) = length (freedofs s)"
      using h by (simp add: length_activity_mask)
    then have l: "length (freedofs ?s) = length (gfu ?s)"
      using assms by (simp add: freedofs_setup_freedofs length_ba_and g)
    have "freedofs ?s ! i = (freedofs s ! i \<and> activity_mask Vh ci ! i)"
      using h len assms by (simp add: freedofs_setup_freedofs nth_ba_and)
    with h have nf: "\<not> freedofs ?s ! i"
      by simp
    from h have "i < length (gfu ?s)"
      by (simp add: g)
    from solve_frame[OF l this nf] show ?thesis
      by (simp add: g)
  qed
  have 4: "freedofs (SolveLinearSystem solve s) = freedofs s \<and>
         a_mat (SolveLinearSystem solve s) = a_mat s \<and>
         f_vec (SolveLinearSystem solve s) = f_vec s"
    by (simp add: SolveLinearSystem_def Let_def)
  from 1 2 3 4 show ?thesis by blast
qed

lemma example_setup:
  "setup_freedofs example_space (CutInfo Positive two_triangles [- 1, 0, 0, 1]) example_state =
   example_state\<lparr>freedofs := [True, False, False, True]\<rparr>"
  by (simp add: setup_freedofs_def example_activity_mask ba_and_def example_state_def)

lemma example_solve:
  "gfu (SolveLinearSystem diagonal_solve (example_state\<lparr>freedofs := [True, False, False, True]\<rparr>)) =
   [2, 0, 5, 2]"
  by (simp add: SolveLinearSystem_def Let_def Inverse_def restrict_mat_def restrict_vec_def
      free_indices_def diagonal_solve_def vec_add_def vec_sub_def mat_vec_def example_state_def)

theorem solve_changes_free_dofs_only_witness:
  "length (freedofs example_state) = length (gfu example_state) \<and>
   length (freedofs example_state) = 2 * ndof example_space \<and>
   gfu example_state = [0, 0, 5, 0] \<and>
   freedofs example_state = [True, True, False, True] \<and>
   gfu (SolveLinearSystem diagonal_solve example_state) ! 2 = 5 \<and>
   activity_mask example_space (CutInfo Positive two_triangles [- 1, 0, 0, 1]) =
     [True, False, True, True] \<and>
   gfu (SolveLinearSystem diagonal_solve
     (setup_freedofs example_space (CutInfo Positive two_triangles [- 1, 0, 0, 1]) example_state)) =
     [2, 0, 5, 2] \<and>
   gfu (SolveLinearSystem diagonal_solve
     (setup_freedofs example_space (CutInfo Positive two_triangles [- 1, 0, 0, 1]) example_state)) ! 1 =
     gfu example_state ! 1 \<and>
   gfu (SolveLinearSystem diagonal_solve
     (setup_freedofs example_space (CutInfo Positive two_triangles [- 1, 0, 0, 1]) example_state)) ! 2 =
     gfu example_state ! 2"
proof -
  let ?ci = "CutInfo Positive two_triangles [- 1, 0, 0, 1]"
  have h: "length (freedofs example_state) = length (gfu example_state)"
    and h2: "length (freedofs example_state) = 2 * ndof example_space"
    and g: "gfu example_state = [0, 0, 5, 0]"
    and fd: "freedofs example_state = [True, True, False, True]"
    by (simp_all add: example_state_def example_space_def)
  note inst = solve_changes_free_dofs_only[OF h, of diagonal_solve example_space ?ci]
  have i2: "2 < length (gfu example_state) \<and> \<not> freedofs example_state ! 2"
    by (simp add: g fd)
  with inst have "gfu (SolveLinearSystem diagonal_solve example_state) ! 2 = gfu example_state ! 2"
    by blast
  then have 1: "gfu (SolveLinearSystem diagonal_solve example_state) ! 2 = 5"
    by (simp add: g)
  have "1 < length (gfu example_state) \<and> length (freedofs example_state) = 2 * ndof example_space \<and>
      \<not> (freedofs example_state ! 1 \<and> activity_mask example_space ?ci ! 1)"
    using h2 by (simp add: g example_activity_mask)
  with inst have 2: "gfu (SolveLinearSystem diagonal_solve (setup_freedofs example_space ?ci example_state)) ! 1 =
      gfu example_state ! 1"
    by blast
  have "2 < length (gfu example_state) \<and> length (freedofs example_state) = 2 * ndof example_space \<and>
      \<not> (freedofs example_state ! 2 \<and> activity_mask example_space ?ci ! 2)"
    using h2 by (simp add: g fd)
  with inst have 3: "gfu (SolveLinearSystem diagonal_solve (setup_freedofs example_space ?ci example_state)) ! 2 =
      gfu example_state ! 2"
    by blast
  have 4: "gfu (SolveLinearSystem diagonal_solve (setup_freedofs example_space ?ci example_state)) =
      [2, 0, 5, 2]"
    by (simp only: example_setup example_solve)
  from h h2 g fd 1 example_activity_mask 4 2 3 show ?thesis
    by (intro conjI)
qed

subsection \<open>Rounding to double precision\<close>














subsection \<open>The loops along the iterates of \<open>told\<close>\<close>






subsection \<open>The rounding error of one pass\<close>












subsection \<open>The slab loop in double precision\<close>








































































subsection \<open>Where the loop fails the stated condition\<close>






































subsection \<open>Restriction of a space-time field to the nodes in time\<close>

lemma map2_top: "length xs = length ys \<Longrightarrow> map2 (\<lambda>bottom top. top) xs ys = ys"
  by (induction xs ys rule: list_induct2) simp_all

lemma map2_bottom: "length xs = length ys \<Longrightarrow> map2 (\<lambda>bottom top. bottom) xs ys = xs"
  by (induction xs ys rule: list_induct2) simp_all

lemma RestrictGFInTime_top:
  "length gf = 2 * n \<Longrightarrow> RestrictGFInTime n gf 1 = Some (drop n gf)"
  by (simp add: RestrictGFInTime_def map2_top)

lemma RestrictGFInTime_bottom:
  "length gf = 2 * n \<Longrightarrow> RestrictGFInTime n gf 0 = Some (take n gf)"
  by (simp add: RestrictGFInTime_def map2_bottom)

lemma length_SpaceTimeInterpolateToP1:
  "length (SpaceTimeInterpolateToP1 ls t_old delta_t m) = 2 * length (vertices m)"
  by (simp add: SpaceTimeInterpolateToP1_def InterpolateToP1_def)

lemma UpdateTimeSlabGeometry_Some:
  "UpdateTimeSlabGeometry zero levelset m delta_t s =
   Some (s\<lparr>slab_lset_p1 := SpaceTimeInterpolateToP1 levelset (slab_told s) delta_t m,
           slab_lset_bottom := InterpolateToP1 (levelset (slab_told s)) m,
           slab_lset_top := InterpolateToP1 (levelset (slab_told s + delta_t)) m,
           slab_ci := CutInfo_Update zero m (SpaceTimeInterpolateToP1 levelset (slab_told s) delta_t m)\<rparr>)"
proof -
  let ?l = "SpaceTimeInterpolateToP1 levelset (slab_told s) delta_t m"
  have b: "RestrictGFInTime (length (vertices m)) ?l 0 = Some (InterpolateToP1 (levelset (slab_told s)) m)"
    by (simp add: RestrictGFInTime_bottom length_SpaceTimeInterpolateToP1)
      (simp add: SpaceTimeInterpolateToP1_def InterpolateToP1_def)
  have t: "RestrictGFInTime (length (vertices m)) ?l 1 =
      Some (InterpolateToP1 (levelset (slab_told s + delta_t)) m)"
    by (simp add: RestrictGFInTime_top length_SpaceTimeInterpolateToP1)
      (simp add: SpaceTimeInterpolateToP1_def InterpolateToP1_def)
  show ?thesis
    by (simp add: UpdateTimeSlabGeometry_def Let_def b t)
qed

lemma length_gfu_SolveForTimeSlab:
  "length (slab_gfu (SolveForTimeSlab lib st_fes s)) = ndof st_fes"
  by (simp add: SolveForTimeSlab_def Let_def length_Inverse length_GetDofsOfElements)

subsection \<open>The facets of the ghost penalty\<close>

lemma length_GetFacetsWithNeighborTypes:
  "length (GetFacetsWithNeighborTypes m a b) = length (facets m)"
  by (simp add: GetFacetsWithNeighborTypes_def)

lemma nth_GetFacetsWithNeighborTypes:
  assumes "f < length (facets m)"
  shows "GetFacetsWithNeighborTypes m a b ! f =
    (\<exists>e1 e2. facets m ! f = [e1, e2] \<and>
       ((marked a e1 \<and> marked b e2) \<or> (marked a e2 \<and> marked b e1)))"
  using assms by (auto simp: GetFacetsWithNeighborTypes_def split: list.splits)

lemma distinct_free_indices: "distinct (free_indices ba)"
  by (simp add: free_indices_def)

lemma set_free_indices: "set (free_indices ba) = ba_set ba"
  by (simp add: free_indices_def ba_set_def)

lemma assemble_facet_patch_marked:
  "definedonelements I = Some ba \<Longrightarrow>
   assemble_facet_patch nfacets patch_integral I = (\<Sum>f \<in> ba_set ba. patch_integral f)"
  by (simp add: assemble_facet_patch_def sum_list_distinct_conv_sum_set distinct_free_indices
      set_free_indices)

lemma patch_integrators_UpdateLinearSystems:
  "patch_integrators_a (UpdateLinearSystems lib m s) =
   map (SetDefinedOnElements (GetFacetsWithNeighborTypes m (GetElementsOfType (slab_ci s) HASNEG)
          (GetElementsOfType (slab_ci s) IF))) (patch_integrators_a s)"
  by (simp add: UpdateLinearSystems_def Let_def)

lemma hasneg_integrators_a_UpdateLinearSystems:
  "hasneg_integrators_a (UpdateLinearSystems lib m s) =
   map (SetDefinedOnElements (GetElementsOfType (slab_ci s) HASNEG)) (hasneg_integrators_a s)"
  by (simp add: UpdateLinearSystems_def Let_def)

lemma hasneg_integrators_f_UpdateLinearSystems:
  "hasneg_integrators_f (UpdateLinearSystems lib m s) =
   map (SetDefinedOnElements (GetElementsOfType (slab_ci s) HASNEG)) (hasneg_integrators_f s)"
  by (simp add: UpdateLinearSystems_def Let_def)

lemma slab_a_mat_UpdateLinearSystems:
  "slab_a_mat (UpdateLinearSystems lib m s) =
   assemble_a lib
     (hasneg_integrators_a (UpdateLinearSystems lib m s) @
      patch_integrators_a (UpdateLinearSystems lib m s))
     (slab_coef_told s) (slab_coef_delta_t s) (slab_lset_p1 s) (slab_lset_top s)"
  by (simp add: UpdateLinearSystems_def Let_def)

lemma slab_f_vec_UpdateLinearSystems:
  "slab_f_vec (UpdateLinearSystems lib m s) =
   assemble_f lib (hasneg_integrators_f (UpdateLinearSystems lib m s))
     (slab_coef_told s) (slab_coef_delta_t s) (slab_lset_p1 s) (slab_lset_bottom s) (slab_u_last s)"
  by (simp add: UpdateLinearSystems_def Let_def)

lemma frame_UpdateLinearSystems:
  "slab_u_last (UpdateLinearSystems lib m s) = slab_u_last s \<and>
   slab_gfu (UpdateLinearSystems lib m s) = slab_gfu s \<and>
   slab_told (UpdateLinearSystems lib m s) = slab_told s \<and>
   slab_coef_told (UpdateLinearSystems lib m s) = slab_coef_told s \<and>
   slab_coef_delta_t (UpdateLinearSystems lib m s) = slab_coef_delta_t s \<and>
   slab_ci (UpdateLinearSystems lib m s) = slab_ci s"
  by (simp add: UpdateLinearSystems_def Let_def)

text \<open>
  C4. After \<open>UpdateLinearSystems\<close>, for every classification held by \<open>ci\<close>: every
  integrator of \<open>patch_integrators_a\<close> is defined on the array returned by
  \<open>GetFacetsWithNeighborTypes(mesh, a = HASNEG elements, b = IF elements)\<close>, which marks
  a facet if and only if it has two adjacent elements, one in \<open>a\<close> and the other in \<open>b\<close>
  or the other way round; the assembled value of such an integrator is the sum of the
  patch integrals over exactly these facets; the matrix is assembled from the integrators
  with these markers; the forms of the integrators are unchanged, so that a list holding
  the ghost penalty form still holds it; and the integrand of that form is the product of
  the jumps \<open>(u - u.Other())*(v - v.Other())\<close> scaled by 0.05, by \<open>h^(-2)\<close> and by
  \<open>coef_delta_t\<close>, which the update leaves at its value, the length of the slab in
  physical time.
\<close>

theorem ghost_penalty_domain_and_form:
  "(let ba_facets = GetFacetsWithNeighborTypes m (GetElementsOfType (slab_ci s) HASNEG)
                      (GetElementsOfType (slab_ci s) IF);
        s' = UpdateLinearSystems lib m s
    in (\<forall>I \<in> set (patch_integrators_a s').
          definedonelements I = Some ba_facets \<and>
          assemble_facet_patch (length (facets m)) patch_integral I =
            (\<Sum>f \<in> ba_set ba_facets. patch_integral f)) \<and>
       length ba_facets = length (facets m) \<and>
       (\<forall>f. f < length (facets m) \<longrightarrow>
          ba_facets ! f =
            (\<exists>e1 e2. facets m ! f = [e1, e2] \<and>
               ((marked (GetElementsOfType (slab_ci s) HASNEG) e1 \<and>
                 marked (GetElementsOfType (slab_ci s) IF) e2) \<or>
                (marked (GetElementsOfType (slab_ci s) HASNEG) e2 \<and>
                 marked (GetElementsOfType (slab_ci s) IF) e1)))) \<and>
       slab_a_mat s' =
         assemble_a lib (hasneg_integrators_a s' @ patch_integrators_a s')
           (slab_coef_told s) (slab_coef_delta_t s) (slab_lset_p1 s) (slab_lset_top s) \<and>
       map integrator_form (patch_integrators_a s') = map integrator_form (patch_integrators_a s) \<and>
       slab_coef_delta_t s' = slab_coef_delta_t s \<and>
       physical_time s' 1 - physical_time s' 0 = slab_coef_delta_t s') \<and>
   map integrator_form initial_patch_integrators_a = [ghost_penalty] \<and>
   ghost_penalty_integrand coef_delta_t h u u_Other v v_Other =
     0.05 * (1 / h ^ 2) * coef_delta_t * ((u - u_Other) * (v - v_Other))"
proof -
  let ?ba = "GetFacetsWithNeighborTypes m (GetElementsOfType (slab_ci s) HASNEG)
               (GetElementsOfType (slab_ci s) IF)"
  let ?s = "UpdateLinearSystems lib m s"
  have 1: "definedonelements I = Some ?ba \<and>
      assemble_facet_patch (length (facets m)) patch_integral I = (\<Sum>f \<in> ba_set ?ba. patch_integral f)"
    if "I \<in> set (patch_integrators_a ?s)" for I
  proof -
    from that have "definedonelements I = Some ?ba"
      by (auto simp: patch_integrators_UpdateLinearSystems SetDefinedOnElements_def)
    then show ?thesis
      by (simp add: assemble_facet_patch_marked)
  qed
  have 2: "length ?ba = length (facets m)"
    by (rule length_GetFacetsWithNeighborTypes)
  have 3: "?ba ! f =
      (\<exists>e1 e2. facets m ! f = [e1, e2] \<and>
         ((marked (GetElementsOfType (slab_ci s) HASNEG) e1 \<and>
           marked (GetElementsOfType (slab_ci s) IF) e2) \<or>
          (marked (GetElementsOfType (slab_ci s) HASNEG) e2 \<and>
           marked (GetElementsOfType (slab_ci s) IF) e1)))"
    if "f < length (facets m)" for f
    using that by (rule nth_GetFacetsWithNeighborTypes)
  have 4: "slab_a_mat ?s =
      assemble_a lib (hasneg_integrators_a ?s @ patch_integrators_a ?s)
        (slab_coef_told s) (slab_coef_delta_t s) (slab_lset_p1 s) (slab_lset_top s)"
    by (rule slab_a_mat_UpdateLinearSystems)
  have 5: "map integrator_form (patch_integrators_a ?s) = map integrator_form (patch_integrators_a s)"
    by (simp add: patch_integrators_UpdateLinearSystems SetDefinedOnElements_def comp_def)
  have 6: "slab_coef_delta_t ?s = slab_coef_delta_t s \<and>
      physical_time ?s 1 - physical_time ?s 0 = slab_coef_delta_t ?s"
    by (simp add: frame_UpdateLinearSystems physical_time_def)
  have 7: "map integrator_form initial_patch_integrators_a = [ghost_penalty]"
    by (simp add: initial_patch_integrators_a_def)
  have 8: "ghost_penalty_integrand coef_delta_t h u u_Other v v_Other =
     0.05 * (1 / h ^ 2) * coef_delta_t * ((u - u_Other) * (v - v_Other))"
    by (simp add: ghost_penalty_integrand_def power_int_minus field_simps)
  from 1 2 3 4 5 6 7 8 show ?thesis
    unfolding Let_def by blast
qed

theorem ghost_penalty_domain_and_form_witness:
  "GetElementsOfType example_ci HASNEG = [True, True] \<and>
   GetElementsOfType example_ci IF = [True, False] \<and>
   GetFacetsWithNeighborTypes two_triangles (GetElementsOfType example_ci HASNEG)
     (GetElementsOfType example_ci IF) = [False, False, True, False, False] \<and>
   patch_integrators_a (UpdateLinearSystems example_library two_triangles
     ((initial_slab_state (1 / 32) [])\<lparr>slab_ci := example_ci\<rparr>)) =
     [\<lparr>integrator_domain = None, integrator_form = ghost_penalty,
       definedonelements = Some [False, False, True, False, False]\<rparr>] \<and>
   assemble_facet_patch (length (facets two_triangles)) (\<lambda>f. real f + 1)
     \<lparr>integrator_domain = None, integrator_form = ghost_penalty,
       definedonelements = Some [False, False, True, False, False]\<rparr> = 3 \<and>
   ghost_penalty_integrand (1 / 32) (1 / 2) 3 1 5 2 = 3 / 80"
proof -
  let ?s = "(initial_slab_state (1 / 32) [])\<lparr>slab_ci := example_ci\<rparr>"
  let ?I = "\<lparr>integrator_domain = None, integrator_form = ghost_penalty,
       definedonelements = Some [False, False, True, False, False]\<rparr>"
  have a: "GetElementsOfType example_ci HASNEG = [True, True]"
    and b: "GetElementsOfType example_ci IF = [True, False]"
    by (simp_all add: GetElementsOfType_def example_ci_def)
  have c: "GetFacetsWithNeighborTypes two_triangles (GetElementsOfType example_ci HASNEG)
     (GetElementsOfType example_ci IF) = [False, False, True, False, False]"
    unfolding a b by (simp add: GetFacetsWithNeighborTypes_def two_triangles_def marked_def)
  have d: "patch_integrators_a (UpdateLinearSystems example_library two_triangles ?s) = [?I]"
    by (simp add: patch_integrators_UpdateLinearSystems c initial_slab_state_def
        initial_patch_integrators_a_def SetDefinedOnElements_def)
  have bs: "ba_set [False, False, True, False, False] = {2}"
    by (auto simp: ba_set_iff nth_Cons split: nat.splits)
  note inst = ghost_penalty_domain_and_form[of two_triangles ?s example_library "\<lambda>f. real f + 1"
      "1 / 32" "1 / 2" 3 1 5 2, unfolded Let_def]
  from inst have "\<forall>I \<in> set (patch_integrators_a (UpdateLinearSystems example_library two_triangles ?s)).
      assemble_facet_patch (length (facets two_triangles)) (\<lambda>f. real f + 1) I =
        (\<Sum>f \<in> ba_set (GetFacetsWithNeighborTypes two_triangles
           (GetElementsOfType (slab_ci ?s) HASNEG) (GetElementsOfType (slab_ci ?s) IF)). real f + 1)"
    by blast
  then have e: "assemble_facet_patch (length (facets two_triangles)) (\<lambda>f. real f + 1) ?I = 3"
    unfolding d by (simp add: c bs)
  from inst have "ghost_penalty_integrand (1 / 32) (1 / 2) 3 1 5 2 =
      0.05 * (1 / (1 / 2) ^ 2) * (1 / 32) * ((3 - 1) * (5 - 2))"
    by blast
  then have f: "ghost_penalty_integrand (1 / 32) (1 / 2) 3 1 5 2 = 3 / 80"
    by (simp add: power2_eq_square)
  from a b c d e f show ?thesis
    by (intro conjI)
qed

subsection \<open>The top trace of a slab is the bottom datum of the next\<close>

lemma slab_step_Some:
  assumes "ndof st_fes = 2 * length (vertices m)"
  shows "\<exists>s1. slab_step lib zero levelset m st_fes delta_t s0 = Some s1 \<and>
           slab_u_last s1 = drop (length (vertices m)) (slab_gfu s1) \<and>
           slab_told s1 = slab_told s0 + delta_t \<and>
           slab_coef_told s1 = slab_told s0 + delta_t \<and>
           slab_coef_delta_t s1 = slab_coef_delta_t s0 \<and>
           length (slab_gfu s1) = 2 * length (vertices m)"
proof -
  obtain g where g: "UpdateTimeSlabGeometry zero levelset m delta_t s0 = Some g"
    and gt: "slab_told g = slab_told s0" and gd: "slab_coef_delta_t g = slab_coef_delta_t s0"
    by (simp add: UpdateTimeSlabGeometry_Some)
  define s3 where "s3 = SolveForTimeSlab lib st_fes (UpdateLinearSystems lib m g)"
  define s5 where "s5 = s3\<lparr>slab_told := slab_told s3 + delta_t, slab_coef_told := slab_told s3 + delta_t\<rparr>"
  have len: "length (slab_gfu s5) = 2 * length (vertices m)"
    using assms by (simp add: s5_def s3_def length_gfu_SolveForTimeSlab)
  have t3: "slab_told s3 = slab_told s0" and d3: "slab_coef_delta_t s3 = slab_coef_delta_t s0"
    by (simp_all add: s3_def SolveForTimeSlab_def Let_def frame_UpdateLinearSystems gt gd)
  have fin: "FinalizeStep m s5 = Some (s5\<lparr>slab_u_last := drop (length (vertices m)) (slab_gfu s5)\<rparr>)"
    by (simp add: FinalizeStep_def RestrictGFInTime_top[OF len])
  have "slab_step lib zero levelset m st_fes delta_t s0 = FinalizeStep m s5"
    by (simp add: slab_step_def g Let_def s5_def s3_def)
  with fin have "slab_step lib zero levelset m st_fes delta_t s0 =
      Some (s5\<lparr>slab_u_last := drop (length (vertices m)) (slab_gfu s5)\<rparr>)"
    by simp
  moreover have "slab_told s5 = slab_told s0 + delta_t" "slab_coef_told s5 = slab_told s0 + delta_t"
    "slab_coef_delta_t s5 = slab_coef_delta_t s0"
    by (simp_all add: s5_def t3 d3)
  ultimately show ?thesis
    using len by simp
qed

text \<open>
  C5. For every slab, started in a state where \<open>coef_told\<close> holds \<open>told\<close> and
  \<open>coef_delta_t\<close> holds \<open>delta_t\<close> (as before the loop, and again after every slab), with
  one degree of freedom of the space-time space per vertex and node in time: the slab is
  processed without error; \<open>FinalizeStep\<close> leaves in \<open>u_last\<close> the restriction of the slab
  solution \<open>gfu\<close> to reference time 1, which for the nodal space is the block of \<open>gfu\<close> at
  the top node; the geometry update of the next slab does not touch \<open>u_last\<close> or \<open>gfu\<close>,
  and the right-hand side of the next slab is assembled with exactly this field as the
  datum of the form \<open>u_last*fix_t(v,0)\<close>; and reference time 0 of the next slab is the
  same physical instant as reference time 1 of the slab.
\<close>

theorem slab_round_trip:
  assumes "ndof st_fes = 2 * length (vertices m)"
    and "slab_coef_told s0 = slab_told s0" and "slab_coef_delta_t s0 = delta_t"
  shows "\<exists>s1 s2.
           slab_step lib zero levelset m st_fes delta_t s0 = Some s1 \<and>
           RestrictGFInTime (length (vertices m)) (slab_gfu s1) 1 = Some (slab_u_last s1) \<and>
           slab_u_last s1 = drop (length (vertices m)) (slab_gfu s1) \<and>
           slab_coef_told s1 = slab_told s1 \<and> slab_coef_delta_t s1 = delta_t \<and>
           UpdateTimeSlabGeometry zero levelset m delta_t s1 = Some s2 \<and>
           slab_u_last s2 = slab_u_last s1 \<and> slab_gfu s2 = slab_gfu s1 \<and>
           slab_f_vec (UpdateLinearSystems lib m s2) =
             assemble_f lib (hasneg_integrators_f (UpdateLinearSystems lib m s2))
               (slab_coef_told s2) (slab_coef_delta_t s2) (slab_lset_p1 s2) (slab_lset_bottom s2)
               (drop (length (vertices m)) (slab_gfu s1)) \<and>
           physical_time s2 0 = physical_time s0 1"
proof -
  from slab_step_Some[OF assms(1), of lib zero levelset delta_t s0] obtain s1 where
    st: "slab_step lib zero levelset m st_fes delta_t s0 = Some s1" and
    u: "slab_u_last s1 = drop (length (vertices m)) (slab_gfu s1)" and
    t: "slab_told s1 = slab_told s0 + delta_t" and
    c: "slab_coef_told s1 = slab_told s0 + delta_t" and
    d: "slab_coef_delta_t s1 = slab_coef_delta_t s0" and
    len: "length (slab_gfu s1) = 2 * length (vertices m)"
    by blast
  obtain s2 where g: "UpdateTimeSlabGeometry zero levelset m delta_t s1 = Some s2"
    and fr: "slab_u_last s2 = slab_u_last s1" "slab_gfu s2 = slab_gfu s1"
      "slab_coef_told s2 = slab_coef_told s1" "slab_coef_delta_t s2 = slab_coef_delta_t s1"
    by (simp add: UpdateTimeSlabGeometry_Some)
  have r: "RestrictGFInTime (length (vertices m)) (slab_gfu s1) 1 = Some (slab_u_last s1)"
    by (simp add: RestrictGFInTime_top[OF len] u)
  have f: "slab_f_vec (UpdateLinearSystems lib m s2) =
      assemble_f lib (hasneg_integrators_f (UpdateLinearSystems lib m s2))
        (slab_coef_told s2) (slab_coef_delta_t s2) (slab_lset_p1 s2) (slab_lset_bottom s2)
        (drop (length (vertices m)) (slab_gfu s1))"
    by (simp add: slab_f_vec_UpdateLinearSystems fr(1) u)
  have p: "physical_time s2 0 = physical_time s0 1"
    by (simp add: physical_time_def fr c assms(2,3))
  from st r u t c d assms(3) g fr f p show ?thesis
    by auto
qed

lemma example_geometry:
  "UpdateTimeSlabGeometry Positive example_levelset two_triangles (1 / 32)
     (initial_slab_state (1 / 32) [1, 2, 3, 4]) =
   Some ((initial_slab_state (1 / 32) [1, 2, 3, 4])
     \<lparr>slab_lset_p1 := [- 1, 0, 0, 1, - (33 / 32), - (1 / 32), - (1 / 32), 31 / 32],
      slab_lset_bottom := [- 1, 0, 0, 1],
      slab_lset_top := [- (33 / 32), - (1 / 32), - (1 / 32), 31 / 32],
      slab_ci := [[Negative, Positive, Positive, Negative, Negative, Negative],
                  [Positive, Positive, Positive, Negative, Positive, Negative]]\<rparr>)"
  by (simp add: UpdateTimeSlabGeometry_Some SpaceTimeInterpolateToP1_def InterpolateToP1_def
      CutInfo_Update_def two_triangles_def example_levelset_def vertex_sign_def
      initial_slab_state_def)

lemma example_active_dofs:
  "GetDofsOfElements (SpaceTimeFESpace example_fes1)
     (GetElementsOfType [[Negative, Positive, Positive, Negative, Negative, Negative],
                         [Positive, Positive, Positive, Negative, Positive, Negative]] HASNEG) =
   replicate 8 True"
  by (simp add: GetDofsOfElements_def SpaceTimeFESpace_def example_fes1_def GetElementsOfType_def
      upt_rec numeral_eq_Suc)

lemma example_slab_solution:
  "slab_gfu (SolveForTimeSlab example_library (SpaceTimeFESpace example_fes1)
     (UpdateLinearSystems example_library two_triangles
       ((initial_slab_state (1 / 32) [1, 2, 3, 4])
          \<lparr>slab_lset_p1 := [- 1, 0, 0, 1, - (33 / 32), - (1 / 32), - (1 / 32), 31 / 32],
           slab_lset_bottom := [- 1, 0, 0, 1],
           slab_lset_top := [- (33 / 32), - (1 / 32), - (1 / 32), 31 / 32],
           slab_ci := [[Negative, Positive, Positive, Negative, Negative, Negative],
                       [Positive, Positive, Positive, Negative, Positive, Negative]]\<rparr>))) =
   [1, 2, 3, 4, 2, 4, 6, 8]"
  apply (simp add: SolveForTimeSlab_def Let_def frame_UpdateLinearSystems example_active_dofs
      slab_a_mat_UpdateLinearSystems slab_f_vec_UpdateLinearSystems)
  apply (simp add: example_library_def initial_slab_state_def Inverse_def restrict_mat_def
      restrict_vec_def free_indices_def diagonal_solve_def numeral_eq_Suc)
  done

theorem slab_round_trip_witness:
  "ndof (SpaceTimeFESpace example_fes1) = 2 * length (vertices two_triangles) \<and>
   slab_coef_told (initial_slab_state (1 / 32) [1, 2, 3, 4]) =
     slab_told (initial_slab_state (1 / 32) [1, 2, 3, 4]) \<and>
   slab_coef_delta_t (initial_slab_state (1 / 32) [1, 2, 3, 4]) = 1 / 32 \<and>
   (\<exists>s1 s2.
      slab_step example_library Positive example_levelset two_triangles
        (SpaceTimeFESpace example_fes1) (1 / 32) (initial_slab_state (1 / 32) [1, 2, 3, 4]) = Some s1 \<and>
      slab_gfu s1 = [1, 2, 3, 4, 2, 4, 6, 8] \<and>
      RestrictGFInTime 4 (slab_gfu s1) 1 = Some [2, 4, 6, 8] \<and>
      slab_u_last s1 = [2, 4, 6, 8] \<and>
      UpdateTimeSlabGeometry Positive example_levelset two_triangles (1 / 32) s1 = Some s2 \<and>
      slab_f_vec (UpdateLinearSystems example_library two_triangles s2) = [2, 4, 6, 8, 4, 8, 12, 16] \<and>
      physical_time s2 0 = 1 / 32 \<and>
      physical_time (initial_slab_state (1 / 32) [1, 2, 3, 4]) 1 = 1 / 32)"
proof -
  let ?s0 = "initial_slab_state (1 / 32) [1, 2, 3, 4]"
  let ?st = "SpaceTimeFESpace example_fes1"
  have h1: "ndof ?st = 2 * length (vertices two_triangles)"
    by (simp add: SpaceTimeFESpace_def example_fes1_def two_triangles_def)
  have h2: "slab_coef_told ?s0 = slab_told ?s0" and h3: "slab_coef_delta_t ?s0 = 1 / 32"
    by (simp_all add: initial_slab_state_def)
  have nv: "length (vertices two_triangles) = 4"
    by (simp add: two_triangles_def)
  from slab_round_trip[OF h1 h2 h3, of example_library Positive example_levelset]
  obtain s1 s2 where
    st: "slab_step example_library Positive example_levelset two_triangles ?st (1 / 32) ?s0 = Some s1" and
    r: "RestrictGFInTime 4 (slab_gfu s1) 1 = Some (slab_u_last s1)" and
    u: "slab_u_last s1 = drop 4 (slab_gfu s1)" and
    g: "UpdateTimeSlabGeometry Positive example_levelset two_triangles (1 / 32) s1 = Some s2" and
    f: "slab_f_vec (UpdateLinearSystems example_library two_triangles s2) =
          assemble_f example_library
            (hasneg_integrators_f (UpdateLinearSystems example_library two_triangles s2))
            (slab_coef_told s2) (slab_coef_delta_t s2) (slab_lset_p1 s2) (slab_lset_bottom s2)
            (drop 4 (slab_gfu s1))" and
    p: "physical_time s2 0 = physical_time ?s0 1"
    unfolding nv by blast
  from st have sol: "slab_gfu s1 = [1, 2, 3, 4, 2, 4, 6, 8]"
    by (auto simp: slab_step_def example_geometry Let_def FinalizeStep_def example_slab_solution
        split: option.splits)
  have p0: "physical_time ?s0 1 = 1 / 32"
    by (simp add: physical_time_def initial_slab_state_def)
  from f have fv: "slab_f_vec (UpdateLinearSystems example_library two_triangles s2) =
      [2, 4, 6, 8, 4, 8, 12, 16]"
    by (simp add: sol example_library_def)
  from h1 h2 h3 st sol r u g fv p p0 show ?thesis
    by (intro conjI exI[of _ s1] exI[of _ s2]) simp_all
qed

subsection \<open>Deformations are set and unset in matching pairs, never across a refinement\<close>

lemma run_events_append:
  "run_events d (xs @ ys) = (case run_events d xs of None \<Rightarrow> None | Some d' \<Rightarrow> run_events d' ys)"
  by (induction xs arbitrary: d) (auto split: option.splits)

lemma step_event_state:
  "step_event d e = Some d' \<Longrightarrow> d' = deformation_active d [e]"
  by (cases e) (auto split: if_splits)

lemma deformation_active_Cons:
  "deformation_active d (e # es) = deformation_active (deformation_active d [e]) es"
  by (cases e) simp_all

lemma run_events_state:
  "run_events d es = Some d' \<Longrightarrow> d' = deformation_active d es"
proof (induction es arbitrary: d)
  case Nil
  then show ?case by simp
next
  case (Cons e es)
  from Cons.prems obtain d1 where s: "step_event d e = Some d1" and r: "run_events d1 es = Some d'"
    by (auto split: option.splits)
  from s have "d1 = deformation_active d [e]" by (rule step_event_state)
  with Cons.IH[OF r] show ?case
    by (subst deformation_active_Cons) simp
qed

lemma run_events_split:
  assumes "run_events d (xs @ e # ys) = Some d'"
  shows "\<exists>d1 d2. run_events d xs = Some d1 \<and> d1 = deformation_active d xs \<and>
           step_event d1 e = Some d2 \<and> run_events d2 ys = Some d'"
proof -
  from assms obtain d1 where 1: "run_events d xs = Some d1" and 2: "run_events d1 (e # ys) = Some d'"
    by (auto simp: run_events_append split: option.splits)
  from 2 obtain d2 where 3: "step_event d1 e = Some d2" and 4: "run_events d2 ys = Some d'"
    by (auto split: option.splits)
  from 1 have "d1 = deformation_active d xs" by (rule run_events_state)
  with 1 3 4 show ?thesis by blast
qed

lemma unset_follows:
  "run_events True ys = Some False \<Longrightarrow>
   \<exists>zs ws. ys = zs @ UnsetDeformation # ws \<and> (\<forall>z \<in> set zs. \<not> topology_change z)"
proof (induction ys)
  case Nil
  then show ?case by simp
next
  case (Cons e ys)
  show ?case
  proof (cases "e = UnsetDeformation")
    case True
    then have "e # ys = [] @ UnsetDeformation # ys \<and> (\<forall>z \<in> set []. \<not> topology_change z)"
      by simp
    then show ?thesis by blast
  next
    case False
    with Cons.prems have st: "step_event True e = Some True" and r: "run_events True ys = Some False"
      by (cases e; auto split: option.splits if_splits)+
    from st have nt: "\<not> topology_change e"
      by (cases e) (auto simp: topology_change_def)
    from Cons.IH[OF r] obtain zs ws where
      "ys = zs @ UnsetDeformation # ws" and "\<forall>z \<in> set zs. \<not> topology_change z"
      by blast
    with nt have "e # ys = (e # zs) @ UnsetDeformation # ws \<and> (\<forall>z \<in> set (e # zs). \<not> topology_change z)"
      by simp
    then show ?thesis by blast
  qed
qed

lemma run_key_body: "run_events False (key_body key) = Some False"
  by (simp add: key_body_def)

lemma run_level_body: "run_events False (level_body reflevel) = Some False"
  by (simp add: level_body_def run_events_append run_key_body)

lemma run_refinement_study: "run_events False (refinement_study n) = Some False"
  by (induction n) (simp_all add: refinement_study_def run_events_append run_level_body)

lemma run_refine_blocks: "run_events False (concat (replicate m refine_cut_elements)) = Some False"
  by (induction m) (simp_all add: refine_cut_elements_def)

lemma run_intlset: "run_events False (intlset_integration_run m n) = Some False"
  by (simp add: intlset_integration_run_def run_events_append run_refine_blocks run_refinement_study)

lemma run_cutfem: "run_events False cutfem_run = Some False"
  by (simp add: cutfem_run_def ComputeError_events_def)

text \<open>
  C8. In every execution of the integration drivers of intlset.ipynb (the repeatable
  refinement block run \<open>m\<close> times, the refinement study over any number of levels) and of
  the CutFEM.ipynb driver, at every call \<open>e\<close> of the run, with \<open>xs\<close> the calls before it
  and \<open>ys\<close> the calls after it: a refinement (\<open>mesh.Refine\<close>, \<open>RefineAtLevelSet\<close>) finds
  no deformation set; \<open>SetDeformation\<close> finds none set and is followed by an
  \<open>UnsetDeformation\<close> with no refinement in between; \<open>UnsetDeformation\<close> finds one set;
  an integration or assembly for the curved geometry finds one set. No deformation is
  left set at the end of the run.
\<close>

theorem deformation_discipline:
  assumes "t = intlset_integration_run m refinements \<or> t = cutfem_run"
    and "t = xs @ e # ys"
  shows "(topology_change e \<longrightarrow> \<not> deformation_active False xs) \<and>
         (e = SetDeformation \<longrightarrow> \<not> deformation_active False xs \<and>
            (\<exists>zs ws. ys = zs @ UnsetDeformation # ws \<and> (\<forall>z \<in> set zs. \<not> topology_change z))) \<and>
         (e = UnsetDeformation \<longrightarrow> deformation_active False xs) \<and>
         (curved_work e \<longrightarrow> deformation_active False xs) \<and>
         \<not> deformation_active False t"
proof -
  from assms(1) have acc: "run_events False t = Some False"
    using run_intlset run_cutfem by auto
  then have fin: "\<not> deformation_active False t"
    using run_events_state by blast
  from acc assms(2) obtain d2 where
    st: "step_event (deformation_active False xs) e = Some d2" and r: "run_events d2 ys = Some False"
    using run_events_split[of False xs e ys False] by auto
  have 1: "topology_change e \<longrightarrow> \<not> deformation_active False xs"
    using st by (auto simp: topology_change_def split: if_splits)
  have 2: "e = SetDeformation \<longrightarrow> \<not> deformation_active False xs \<and>
            (\<exists>zs ws. ys = zs @ UnsetDeformation # ws \<and> (\<forall>z \<in> set zs. \<not> topology_change z))"
  proof
    assume e: "e = SetDeformation"
    with st have "\<not> deformation_active False xs" and "d2 = True"
      by (auto split: if_splits)
    with r unset_follows show "\<not> deformation_active False xs \<and>
            (\<exists>zs ws. ys = zs @ UnsetDeformation # ws \<and> (\<forall>z \<in> set zs. \<not> topology_change z))"
      by blast
  qed
  have 3: "e = UnsetDeformation \<longrightarrow> deformation_active False xs"
    using st by (auto split: if_splits)
  have 4: "curved_work e \<longrightarrow> deformation_active False xs"
    using st by (cases e) (auto simp: curved_work_def split: if_splits)
  from 1 2 3 4 fin show ?thesis by blast
qed

theorem deformation_discipline_witness:
  "intlset_integration_run 1 2 =
     take 21 (intlset_integration_run 1 2) @ Refine # drop 22 (intlset_integration_run 1 2) \<and>
   topology_change Refine \<and>
   \<not> deformation_active False (take 21 (intlset_integration_run 1 2)) \<and>
   cutfem_run = take 6 cutfem_run @ SetDeformation # drop 7 cutfem_run \<and>
   \<not> deformation_active False (take 6 cutfem_run) \<and>
   (\<exists>zs ws. drop 7 cutfem_run = zs @ UnsetDeformation # ws \<and> list_all (\<lambda>z. \<not> topology_change z) zs) \<and>
   curved_work (Assemble Curved) \<and>
   cutfem_run = take 7 cutfem_run @ Assemble Curved # drop 8 cutfem_run \<and>
   deformation_active False (take 7 cutfem_run) \<and>
   \<not> deformation_active False cutfem_run"
proof -
  have a: "intlset_integration_run 1 2 =
     take 21 (intlset_integration_run 1 2) @ Refine # drop 22 (intlset_integration_run 1 2)"
    by (simp add: intlset_integration_run_def refinement_study_def level_body_def key_body_def
        refine_cut_elements_def numeral_2_eq_2)
  have b: "cutfem_run = take 6 cutfem_run @ SetDeformation # drop 7 cutfem_run"
    by (simp add: cutfem_run_def ComputeError_events_def)
  have c: "cutfem_run = take 7 cutfem_run @ Assemble Curved # drop 8 cutfem_run"
    by (simp add: cutfem_run_def ComputeError_events_def)
  have t: "topology_change Refine" and w: "curved_work (Assemble Curved)"
    by (simp_all add: topology_change_def curved_work_def)
  from deformation_discipline[OF disjI1[OF refl] a] t
  have 1: "\<not> deformation_active False (take 21 (intlset_integration_run 1 2))"
    by blast
  from deformation_discipline[OF disjI2[OF refl] b]
  have 2: "\<not> deformation_active False (take 6 cutfem_run)"
    and 3: "\<exists>zs ws. drop 7 cutfem_run = zs @ UnsetDeformation # ws \<and> (\<forall>z \<in> set zs. \<not> topology_change z)"
    and 5: "\<not> deformation_active False cutfem_run"
    by blast+
  from deformation_discipline[OF disjI2[OF refl] c] w
  have 4: "deformation_active False (take 7 cutfem_run)"
    by blast
  from 3 have u3: "\<exists>zs ws. drop 7 cutfem_run = zs @ UnsetDeformation # ws \<and> list_all (\<lambda>z. \<not> topology_change z) zs"
    by (simp add: list_all_iff)
  from a t 1 b 2 u3 w c 4 5 show ?thesis
    by (intro conjI)
qed

subsection \<open>The band contains the cut elements\<close>

lemma nth_InterpolateToP1:
  "v < length (vertices m) \<Longrightarrow> InterpolateToP1 f m ! v = f (vertices m ! v)"
  by (simp add: InterpolateToP1_def)

lemma mesh_ok_vertex:
  assumes "mesh_ok m" and "e < ne m" and "v \<in> set (elements m ! e)"
  shows "v < length (vertices m)"
proof -
  from assms(2) have "elements m ! e \<in> set (elements m)"
    by (simp add: ne_def)
  with assms(1) have "list_all (\<lambda>v. v < length (vertices m)) (elements m ! e)"
    by (simp add: mesh_ok_def list_all_iff)
  with assms(3) show ?thesis
    by (simp add: list_all_iff)
qed

lemma sign_shift_up:
  "0 \<le> offset \<Longrightarrow> vertex_sign zero v = Positive \<Longrightarrow> vertex_sign zero (v + offset) = Positive"
  by (auto simp: vertex_sign_Positive)

lemma sign_shift_down:
  "0 \<le> offset \<Longrightarrow> vertex_sign zero v = Negative \<Longrightarrow> vertex_sign zero (v - offset) = Negative"
  by (auto simp: vertex_sign_Negative)

lemma has_Positive_POS_or_IF:
  "list_ex (\<lambda>s. s = Positive) sv \<Longrightarrow> element_of_type POS sv \<or> element_of_type IF sv"
  using not_all_Positive[of sv] by auto

lemma has_Negative_NEG_or_IF:
  "list_ex (\<lambda>s. s = Negative) sv \<Longrightarrow> element_of_type NEG sv \<or> element_of_type IF sv"
  using not_all_Negative[of sv] by auto

lemma length_UpdateBand:
  "length ba_band_IF = ne m \<Longrightarrow> length (UpdateBand zero m lset offset ba_band_IF) = ne m"
  by (simp add: UpdateBand_def Let_def length_ba_and length_ba_or length_Clear
      length_GetElementsOfType length_CutInfo)

lemma nth_UpdateBand:
  assumes "length ba_band_IF = ne m" and "e < ne m"
  shows "UpdateBand zero m lset offset ba_band_IF ! e =
    ((GetElementsOfType (CutInfo zero m (InterpolateToP1 (\<lambda>p. lset p + offset) m)) POS ! e \<or>
      GetElementsOfType (CutInfo zero m (InterpolateToP1 (\<lambda>p. lset p + offset) m)) IF ! e) \<and>
     (GetElementsOfType (CutInfo zero m (InterpolateToP1 (\<lambda>p. lset p - offset) m)) NEG ! e \<or>
      GetElementsOfType (CutInfo zero m (InterpolateToP1 (\<lambda>p. lset p - offset) m)) IF ! e))"
  using assms
  by (simp add: UpdateBand_def Let_def nth_ba_and nth_ba_or nth_Clear length_ba_or length_Clear
      length_GetElementsOfType length_CutInfo)

lemma cut_element_in_band:
  assumes ok: "mesh_ok m" and len: "length ba_band_IF = ne m" and off: "0 \<le> offset"
    and e: "e < ne m"
    and cut: "GetElementsOfType (CutInfo zero m (InterpolateToP1 lset m)) IF ! e"
  shows "UpdateBand zero m lset offset ba_band_IF ! e"
proof -
  let ?el = "elements m ! e"
  have val: "InterpolateToP1 f m ! v = f (vertices m ! v)" if "v \<in> set ?el" for f v
    using mesh_ok_vertex[OF ok e that] by (rule nth_InterpolateToP1)
  from cut e have
    n: "\<exists>v \<in> set ?el. vertex_sign zero (InterpolateToP1 lset m ! v) = Negative" and
    p: "\<exists>v \<in> set ?el. vertex_sign zero (InterpolateToP1 lset m ! v) = Positive"
    by (simp_all add: nth_GetElementsOfType list_ex_sign_map)
  from p obtain v where v: "v \<in> set ?el" and "vertex_sign zero (lset (vertices m ! v)) = Positive"
    using val by auto
  then have "vertex_sign zero (InterpolateToP1 (\<lambda>p. lset p + offset) m ! v) = Positive"
    using off by (simp add: val sign_shift_up)
  with v have "list_ex (\<lambda>s. s = Positive)
      (map (\<lambda>v. vertex_sign zero (InterpolateToP1 (\<lambda>p. lset p + offset) m ! v)) ?el)"
    unfolding list_ex_sign_map by blast
  then have up: "GetElementsOfType (CutInfo zero m (InterpolateToP1 (\<lambda>p. lset p + offset) m)) POS ! e \<or>
      GetElementsOfType (CutInfo zero m (InterpolateToP1 (\<lambda>p. lset p + offset) m)) IF ! e"
    unfolding nth_GetElementsOfType[OF e] by (rule has_Positive_POS_or_IF)
  from n obtain w where w: "w \<in> set ?el" and "vertex_sign zero (lset (vertices m ! w)) = Negative"
    using val by auto
  then have "vertex_sign zero (InterpolateToP1 (\<lambda>p. lset p - offset) m ! w) = Negative"
    using off by (simp add: val sign_shift_down)
  with w have "list_ex (\<lambda>s. s = Negative)
      (map (\<lambda>v. vertex_sign zero (InterpolateToP1 (\<lambda>p. lset p - offset) m ! v)) ?el)"
    unfolding list_ex_sign_map by blast
  then have down: "GetElementsOfType (CutInfo zero m (InterpolateToP1 (\<lambda>p. lset p - offset) m)) NEG ! e \<or>
      GetElementsOfType (CutInfo zero m (InterpolateToP1 (\<lambda>p. lset p - offset) m)) IF ! e"
    unfolding nth_GetElementsOfType[OF e] by (rule has_Negative_NEG_or_IF)
  from up down show ?thesis
    unfolding nth_UpdateBand[OF len e] by simp
qed

lemma cut_set_in_band:
  assumes "mesh_ok m" and "length ba_band_IF = ne m" and "0 \<le> offset"
  shows "ba_set (GetElementsOfType (CutInfo zero m (InterpolateToP1 lset m)) IF) \<subseteq>
         ba_set (UpdateBand zero m lset offset ba_band_IF)"
proof
  fix e
  assume "e \<in> ba_set (GetElementsOfType (CutInfo zero m (InterpolateToP1 lset m)) IF)"
  then have e: "e < ne m" and cut: "GetElementsOfType (CutInfo zero m (InterpolateToP1 lset m)) IF ! e"
    by (simp_all add: ba_set_iff length_GetElementsOfType length_CutInfo)
  from cut_element_in_band[OF assms e cut] e
  show "e \<in> ba_set (UpdateBand zero m lset offset ba_band_IF)"
    by (simp add: ba_set_iff length_UpdateBand[OF assms(2)])
qed

text \<open>
  C9. On a mesh whose elements name vertices of the mesh, for every level-set function
  \<open>lset\<close>, every offset \<open>\<ge> 0\<close> and every array \<open>ba_band_IF\<close> with one bit per element,
  the band computed by \<open>UpdateBand(lset, offset, ba_band_IF)\<close> contains every element that
  \<open>CutInfo\<close> marks \<open>IF\<close> for the P1 interpolant of \<open>lset\<close> itself. Hence in every step of
  the time loop of MoL_TraceFEM.ipynb, whatever the time \<open>told\<close> and the band of the
  previous step, the integration set \<open>ba_new_IF\<close> is a subset of the band \<open>ba_band_IF\<close>.
\<close>

theorem band_covers_interface:
  assumes "mesh_ok m" and "length ba_band_IF = ne m" and "0 \<le> offset"
  shows "ba_set (GetElementsOfType (CutInfo zero m (InterpolateToP1 lset m)) IF) \<subseteq>
           ba_set (UpdateBand zero m lset offset ba_band_IF) \<and>
         ba_set (fst (step_element_sets zero m told ba_band_IF)) \<subseteq>
           ba_set (snd (step_element_sets zero m told ba_band_IF))"
proof
  show "ba_set (GetElementsOfType (CutInfo zero m (InterpolateToP1 lset m)) IF) \<subseteq>
           ba_set (UpdateBand zero m lset offset ba_band_IF)"
    using assms by (rule cut_set_in_band)
next
  have "0 \<le> vel * dt"
    by (simp add: vel_def dt_def)
  with assms(1,2) show "ba_set (fst (step_element_sets zero m told ba_band_IF)) \<subseteq>
           ba_set (snd (step_element_sets zero m told ba_band_IF))"
    unfolding step_element_sets_def Let_def fst_conv snd_conv by (rule cut_set_in_band)
qed

theorem band_covers_interface_witness:
  "mesh_ok two_triangles \<and> length [False, False] = ne two_triangles \<and> (0::real) \<le> 1 / 4 \<and>
   GetElementsOfType (CutInfo Positive two_triangles
      (InterpolateToP1 (\<lambda>(x, y). x + y - 1) two_triangles)) IF = [True, False] \<and>
   UpdateBand Positive two_triangles (\<lambda>(x, y). x + y - 1) (1 / 4) [False, False] = [True, True] \<and>
   ba_set (GetElementsOfType (CutInfo Positive two_triangles
      (InterpolateToP1 (\<lambda>(x, y). x + y - 1) two_triangles)) IF) \<subseteq>
     ba_set (UpdateBand Positive two_triangles (\<lambda>(x, y). x + y - 1) (1 / 4) [False, False]) \<and>
   ba_set (fst (step_element_sets Positive two_triangles 0 [False, False])) \<subseteq>
     ba_set (snd (step_element_sets Positive two_triangles 0 [False, False]))"
proof -
  have h1: "mesh_ok two_triangles"
    by (simp add: mesh_ok_def two_triangles_def)
  have h2: "length [False, False] = ne two_triangles"
    by (simp add: ne_def two_triangles_def)
  have h3: "(0::real) \<le> 1 / 4"
    by simp
  have a: "GetElementsOfType (CutInfo Positive two_triangles
      (InterpolateToP1 (\<lambda>(x, y). x + y - 1) two_triangles)) IF = [True, False]"
    by (simp add: GetElementsOfType_def CutInfo_def InterpolateToP1_def two_triangles_def
        vertex_sign_def)
  have b: "UpdateBand Positive two_triangles (\<lambda>(x, y). x + y - 1) (1 / 4) [False, False] = [True, True]"
    by (simp add: UpdateBand_def Let_def Clear_def ba_or_def ba_and_def GetElementsOfType_def
        CutInfo_def InterpolateToP1_def two_triangles_def vertex_sign_def)
  from band_covers_interface[OF h1 h2 h3, of Positive "\<lambda>(x, y). x + y - 1" 0] h1 h2 h3 a b
  show ?thesis
    by (intro conjI) simp_all
qed

end
